theory Spec2Isabelle
  imports Main
begin

section \<open>Data model\<close>

text \<open>
  The engine of Airbnb-Lite: the services in \<^verbatim>\<open>app/services/booking.py\<close>,
  \<^verbatim>\<open>app/services/payment.py\<close> and \<^verbatim>\<open>app/services/inventory.py\<close> over the
  tables declared in \<^verbatim>\<open>app/models\<close>.

  Conventions of the embedding.
  \<^item> A \<^verbatim>\<open>date\<close> is its day ordinal and a \<^verbatim>\<open>datetime\<close> a number of seconds,
    both \<open>int\<close>; \<^verbatim>\<open>timedelta(days=i)\<close> adds \<open>i\<close>.
  \<^item> A \<^verbatim>\<open>Float\<close> column has the type parameter \<open>'p\<close>, of which only \<open>0\<close>,
    \<open>+\<close> and \<open>*\<close> are used, and the conversion of an \<^verbatim>\<open>int\<close> factor to a float
    is a parameter \<open>fl\<close>; nothing is assumed of float arithmetic.
  \<^item> A raised exception is \<open>Inl\<close> of an \<open>error\<close>; the session is rolled back by
    \<^verbatim>\<open>get_db\<close>, so a failing call returns no new state.
  \<^item> The store is a record of tables. \<^verbatim>\<open>inventories\<close> is keyed by (room, date)
    (constraint \<^verbatim>\<open>uq_room_date\<close>), \<^verbatim>\<open>bookings\<close> by primary key and
    \<^verbatim>\<open>booking_guests\<close> is the set of its (booking, guest) rows (both columns form the
    primary key). \<^verbatim>\<open>payments\<close> is a list of rows; a row is identified by its primary
    key \<open>pay_id\<close>. \<^verbatim>\<open>refresh\<close> does not change the tables. A \<^verbatim>\<open>flush\<close> that
    writes a payment row is checked against the two unique columns of
    \<^verbatim>\<open>app/models/payment.py\<close>, \<^verbatim>\<open>booking_id\<close> and \<^verbatim>\<open>transaction_id\<close>, and raises
    \<open>IntegrityError\<close> when another row holds the value already.
  \<^item> Values produced outside the code are parameters: \<^verbatim>\<open>date.today()\<close>,
    \<^verbatim>\<open>datetime.utcnow()\<close>, the server clock, \<^verbatim>\<open>uuid.uuid4().hex\<close> and the primary
    key given to a new row.
\<close>

type_synonym date = int
type_synonym datetime = int

datatype BookingStatus = PENDING | CONFIRMED | CANCELLED | CHECKED_IN | CHECKED_OUT | EXPIRED

datatype PaymentStatus = PAY_PENDING | PAY_COMPLETED | PAY_FAILED | PAY_REFUNDED

datatype PaymentMethod = CREDIT_CARD | DEBIT_CARD | UPI | NET_BANKING | WALLET

datatype UserRole = GUEST | HOTEL_ADMIN | ADMIN

record User =
  user_id :: int
  role :: UserRole

record Hotel =
  owner_id :: int
  is_active :: bool

record 'p Room =
  room_hotel_id :: int
  base_price :: 'p
  total_count :: int

record Guest =
  guest_user_id :: int

record 'p Inventory =
  available_count :: int
  booked_count :: int
  price :: 'p

record 'p Booking =
  booking_user_id :: int
  booking_hotel_id :: int
  booking_room_id :: int
  check_in_date :: date
  check_out_date :: date
  rooms_count :: int
  total_price :: 'p
  status :: BookingStatus
  special_requests :: "string option"
  cancellation_reason :: "string option"
  booking_session_id :: "string option"

record 'p Payment =
  pay_id :: int
  pay_booking_id :: int
  amount :: 'p
  currency :: string
  pay_status :: PaymentStatus
  payment_method :: "PaymentMethod option"
  transaction_id :: "string option"
  payment_session_id :: "string option"
  paid_at :: "datetime option"
  pay_created_at :: datetime

record 'p db =
  hotels :: "int \<rightharpoonup> Hotel"
  rooms :: "int \<rightharpoonup> 'p Room"
  guests :: "int \<rightharpoonup> Guest"
  inventories :: "int \<times> date \<rightharpoonup> 'p Inventory"
  bookings :: "int \<rightharpoonup> 'p Booking"
  booking_guests :: "(int \<times> int) set"
  payments :: "'p Payment list"

subsection \<open>Request schemas\<close>

record BookingCreate =
  bc_hotel_id :: int
  bc_room_id :: int
  bc_check_in_date :: date
  bc_check_out_date :: date
  bc_rooms_count :: int
  bc_special_requests :: "string option"

text \<open>
  A field of a pydantic update schema is left out of the request, sent as \<^verbatim>\<open>null\<close>,
  or sent with a value: \<^verbatim>\<open>model_dump(exclude_unset=True)\<close> tells the first two apart.
\<close>

datatype 'a field = Unset | Null | Value 'a

record 'p InventoryUpdate =
  iu_available_count :: "int field"
  iu_price :: "'p field"

record 'p InventoryBulkUpdate =
  ib_start_date :: date
  ib_end_date :: date
  ib_available_count :: "int field"
  ib_price :: "'p field"

record 'p PaymentWebhookPayload =
  wh_payment_session_id :: string
  wh_transaction_id :: string
  wh_status :: string
  wh_amount :: 'p
  wh_currency :: string

subsection \<open>Errors\<close>

text \<open>
  \<^verbatim>\<open>HTTPException(status_code, detail)\<close>; a detail built by an f-string keeps the
  interpolated date beside its fixed text.
\<close>

datatype detail = Msg string | MsgDate string date

datatype error =
    HTTPException nat detail
  | MultipleResultsFound
  | IntegrityError
  | AttributeError

text \<open>The names the specification gives to the rejections of the engine.\<close>

abbreviation NoInventory :: "date \<Rightarrow> error" where
  "NoInventory d \<equiv> HTTPException 400 (MsgDate ''No inventory available for date '' d)"

abbreviation InsufficientCapacity :: "date \<Rightarrow> error" where
  "InsufficientCapacity d \<equiv> HTTPException 400 (MsgDate ''Not enough rooms available for date '' d)"

abbreviation BookingNotFound :: error where
  "BookingNotFound \<equiv> HTTPException 404 (Msg ''Booking not found'')"

abbreviation CancelInvalidState :: error where
  "CancelInvalidState \<equiv> HTTPException 400 (Msg ''Booking cannot be cancelled'')"

abbreviation GuestsInvalidState :: error where
  "GuestsInvalidState \<equiv> HTTPException 400 (Msg ''Cannot add guests to this booking'')"

abbreviation GuestsNotFound :: error where
  "GuestsNotFound \<equiv> HTTPException 404 (Msg ''Some guests not found'')"

abbreviation PayInvalidState :: error where
  "PayInvalidState \<equiv> HTTPException 400 (Msg ''Booking is not in pending status'')"

abbreviation AlreadyPaid :: error where
  "AlreadyPaid \<equiv> HTTPException 400 (Msg ''Payment already completed'')"

abbreviation SessionNotFound :: error where
  "SessionNotFound \<equiv> HTTPException 404 (Msg ''Payment session not found'')"

abbreviation AlreadyProcessed :: error where
  "AlreadyProcessed \<equiv> HTTPException 400 (Msg ''Payment already processed'')"

subsection \<open>Queries\<close>

text \<open>\<^verbatim>\<open>Result.scalar_one_or_none()\<close> on the rows a query selects.\<close>

fun scalar_one_or_none :: "'a list \<Rightarrow> error + 'a option" where
  "scalar_one_or_none [] = Inr None"
| "scalar_one_or_none [x] = Inr (Some x)"
| "scalar_one_or_none (x # y # zs) = Inl MultipleResultsFound"

text \<open>The nights \<^verbatim>\<open>check_in + timedelta(days=i) for i in range(nights)\<close>.\<close>

definition nights :: "date \<Rightarrow> date \<Rightarrow> int" where
  "nights ci co = co - ci"

definition night_dates :: "date \<Rightarrow> date \<Rightarrow> date list" where
  "night_dates ci co = map (\<lambda>i. ci + i) [0..nights ci co - 1]"

section \<open>BookingService\<close>

subsection \<open>\<^verbatim>\<open>init_booking\<close>\<close>

text \<open>
  The availability loop of \<^verbatim>\<open>init_booking\<close> (lines 66 to 89): the dates still to
  visit and the price accumulated so far.
\<close>

fun check_availability ::
  "('p::{zero,plus,times}) db \<Rightarrow> (int \<Rightarrow> 'p) \<Rightarrow> int \<Rightarrow> int \<Rightarrow> date list \<Rightarrow> 'p \<Rightarrow> error + 'p" where
  "check_availability s fl rid rc [] tot = Inr tot"
| "check_availability s fl rid rc (d # ds) tot =
     (case inventories s (rid, d) of
        None \<Rightarrow> Inl (NoInventory d)
      | Some inventory \<Rightarrow>
          if available_count inventory - booked_count inventory < rc
          then Inl (InsufficientCapacity d)
          else check_availability s fl rid rc ds (tot + price inventory * fl rc))"

text \<open>The loop of \<^verbatim>\<open>_reserve_inventory\<close> over the inventory table.\<close>

fun reserve_dates ::
  "(int \<times> date \<rightharpoonup> 'p Inventory) \<Rightarrow> int \<Rightarrow> int \<Rightarrow> date list \<Rightarrow> (int \<times> date \<rightharpoonup> 'p Inventory)" where
  "reserve_dates tbl rid rc [] = tbl"
| "reserve_dates tbl rid rc (d # ds) =
     reserve_dates
       (case tbl (rid, d) of
          None \<Rightarrow> tbl
        | Some inventory \<Rightarrow>
            tbl((rid, d) \<mapsto> inventory\<lparr>booked_count := booked_count inventory + rc\<rparr>))
       rid rc ds"

definition reserve_inventory :: "'p db \<Rightarrow> 'p Booking \<Rightarrow> 'p db" where
  "reserve_inventory s booking =
     s\<lparr>inventories :=
         reserve_dates (inventories s) (booking_room_id booking) (rooms_count booking)
           (night_dates (check_in_date booking) (check_out_date booking))\<rparr>"

text \<open>The loop of \<^verbatim>\<open>_release_inventory\<close>.\<close>

fun release_dates ::
  "(int \<times> date \<rightharpoonup> 'p Inventory) \<Rightarrow> int \<Rightarrow> int \<Rightarrow> date list \<Rightarrow> (int \<times> date \<rightharpoonup> 'p Inventory)" where
  "release_dates tbl rid rc [] = tbl"
| "release_dates tbl rid rc (d # ds) =
     release_dates
       (case tbl (rid, d) of
          None \<Rightarrow> tbl
        | Some inventory \<Rightarrow>
            tbl((rid, d) \<mapsto> inventory\<lparr>booked_count := max 0 (booked_count inventory - rc)\<rparr>))
       rid rc ds"

definition release_inventory :: "'p db \<Rightarrow> 'p Booking \<Rightarrow> 'p db" where
  "release_inventory s booking =
     s\<lparr>inventories :=
         release_dates (inventories s) (booking_room_id booking) (rooms_count booking)
           (night_dates (check_in_date booking) (check_out_date booking))\<rparr>"

text \<open>
  \<^verbatim>\<open>init_booking(user, booking_data)\<close>; \<open>today\<close> is \<^verbatim>\<open>date.today()\<close> and \<open>bid\<close>
  the primary key the new booking row receives on flush.
\<close>

definition init_booking ::
  "('p::{zero,plus,times}) db \<Rightarrow> (int \<Rightarrow> 'p) \<Rightarrow> date \<Rightarrow> int \<Rightarrow> User \<Rightarrow> BookingCreate
     \<Rightarrow> error + ('p Booking \<times> 'p db)" where
  "init_booking s fl today bid user booking_data =
     (if bc_check_in_date booking_data \<ge> bc_check_out_date booking_data
      then Inl (HTTPException 400 (Msg ''Check-out date must be after check-in date''))
      else if bc_check_in_date booking_data < today
      then Inl (HTTPException 400 (Msg ''Check-in date cannot be in the past''))
      else
        case (case hotels s (bc_hotel_id booking_data) of
                None \<Rightarrow> None
              | Some hotel \<Rightarrow> if is_active hotel then Some hotel else None) of
          None \<Rightarrow> Inl (HTTPException 404 (Msg ''Hotel not found or not active''))
        | Some hotel \<Rightarrow>
            (case (case rooms s (bc_room_id booking_data) of
                     None \<Rightarrow> None
                   | Some room \<Rightarrow>
                       if room_hotel_id room = bc_hotel_id booking_data then Some room else None) of
               None \<Rightarrow> Inl (HTTPException 404 (Msg ''Room not found in this hotel''))
             | Some room \<Rightarrow>
                 (case check_availability s fl (bc_room_id booking_data)
                         (bc_rooms_count booking_data)
                         (night_dates (bc_check_in_date booking_data)
                            (bc_check_out_date booking_data)) 0 of
                    Inl e \<Rightarrow> Inl e
                  | Inr tot \<Rightarrow>
                      let booking = \<lparr>booking_user_id = user_id user,
                                     booking_hotel_id = bc_hotel_id booking_data,
                                     booking_room_id = bc_room_id booking_data,
                                     check_in_date = bc_check_in_date booking_data,
                                     check_out_date = bc_check_out_date booking_data,
                                     rooms_count = bc_rooms_count booking_data,
                                     total_price = tot,
                                     status = PENDING,
                                     special_requests = bc_special_requests booking_data,
                                     cancellation_reason = None,
                                     booking_session_id = None\<rparr>;
                          s1 = s\<lparr>bookings := (bookings s)(bid \<mapsto> booking)\<rparr>
                      in Inr (booking, reserve_inventory s1 booking))))"

subsection \<open>\<^verbatim>\<open>get_booking_by_id\<close>, \<^verbatim>\<open>add_guests_to_booking\<close>, \<^verbatim>\<open>cancel_booking\<close>\<close>

definition get_booking_by_id :: "'p db \<Rightarrow> int \<Rightarrow> User \<Rightarrow> error + 'p Booking" where
  "get_booking_by_id s booking_id user =
     (case bookings s booking_id of
        None \<Rightarrow> Inl BookingNotFound
      | Some booking \<Rightarrow>
          if booking_user_id booking \<noteq> user_id user
             \<and> role user \<noteq> ADMIN
             \<and> (case hotels s (booking_hotel_id booking) of
                  None \<Rightarrow> True
                | Some hotel \<Rightarrow> owner_id hotel \<noteq> user_id user)
          then Inl (HTTPException 403 (Msg ''Not authorized to access this booking''))
          else Inr booking)"

text \<open>
  The rows of \<^verbatim>\<open>select(Guest).where(Guest.id.in_(guest_ids), Guest.user_id == user.id)\<close>:
  one row for each guest of the user whose id occurs in \<open>guest_ids\<close>, however often it
  occurs there.
\<close>

definition select_guests :: "'p db \<Rightarrow> int list \<Rightarrow> int \<Rightarrow> int list" where
  "select_guests s guest_ids uid =
     filter (\<lambda>g. case guests s g of None \<Rightarrow> False | Some guest \<Rightarrow> guest_user_id guest = uid)
       (remdups guest_ids)"

text \<open>
  \<^verbatim>\<open>booking.guests.extend(guests)\<close> followed by a flush: the unit of work inserts a row
  of \<^verbatim>\<open>booking_guests\<close> for each member of the collection that was not in it when it was
  loaded.
\<close>

definition add_guests_to_booking ::
  "'p db \<Rightarrow> int \<Rightarrow> User \<Rightarrow> int list \<Rightarrow> error + ('p Booking \<times> 'p db)" where
  "add_guests_to_booking s booking_id user guest_ids =
     (case get_booking_by_id s booking_id user of
        Inl e \<Rightarrow> Inl e
      | Inr booking \<Rightarrow>
          if status booking \<notin> {PENDING, CONFIRMED}
          then Inl GuestsInvalidState
          else
            let found = select_guests s guest_ids (user_id user) in
            if length found \<noteq> length guest_ids
            then Inl GuestsNotFound
            else Inr (booking,
                      s\<lparr>booking_guests :=
                          booking_guests s \<union> (\<lambda>g. (booking_id, g)) ` set found\<rparr>))"

text \<open>
  \<^verbatim>\<open>booking.payment\<close>, a relationship with \<^verbatim>\<open>uselist=False\<close>: the first payment row
  of the booking, if there is one.
\<close>

definition booking_payment :: "'p db \<Rightarrow> int \<Rightarrow> 'p Payment option" where
  "booking_payment s booking_id = find (\<lambda>p. pay_booking_id p = booking_id) (payments s)"

definition set_payment_status :: "int \<Rightarrow> PaymentStatus \<Rightarrow> 'p Payment list \<Rightarrow> 'p Payment list" where
  "set_payment_status pid st ps =
     map (\<lambda>p. if pay_id p = pid then p\<lparr>pay_status := st\<rparr> else p) ps"

definition cancel_booking ::
  "'p db \<Rightarrow> int \<Rightarrow> User \<Rightarrow> string option \<Rightarrow> error + ('p Booking \<times> 'p db)" where
  "cancel_booking s booking_id user reason =
     (case get_booking_by_id s booking_id user of
        Inl e \<Rightarrow> Inl e
      | Inr booking \<Rightarrow>
          if status booking \<in> {CANCELLED, CHECKED_OUT}
          then Inl CancelInvalidState
          else
            let s1 = release_inventory s booking;
                booking' = booking\<lparr>status := CANCELLED, cancellation_reason := reason\<rparr>;
                s2 = s1\<lparr>bookings := (bookings s1)(booking_id \<mapsto> booking')\<rparr>;
                s3 = (case booking_payment s2 booking_id of
                        None \<Rightarrow> s2
                      | Some payment \<Rightarrow>
                          if pay_status payment = PAY_COMPLETED
                          then s2\<lparr>payments :=
                                    set_payment_status (pay_id payment) PAY_REFUNDED (payments s2)\<rparr>
                          else s2)
            in Inr (booking', s3))"

section \<open>PaymentService\<close>

record 'p PaymentSessionResponse =
  resp_payment_session_id :: "string option"
  resp_payment_url :: string
  resp_amount :: 'p
  resp_currency :: string
  resp_expires_at :: datetime

record WebhookResult =
  res_message :: string
  res_payment_id :: int
  res_booking_id :: int
  res_booking_status :: BookingStatus
  res_payment_status :: PaymentStatus

definition payment_gateway_url :: string where
  "payment_gateway_url = ''https://mock-payment.airbnblite.com/pay''"

text \<open>An optional string inside an f-string.\<close>

definition fstr :: "string option \<Rightarrow> string" where
  "fstr x = (case x of None \<Rightarrow> ''None'' | Some t \<Rightarrow> t)"

text \<open>
  \<^verbatim>\<open>initiate_payment(booking_id, user, payment_data)\<close>; \<open>utcnow\<close> is
  \<^verbatim>\<open>datetime.utcnow()\<close>, \<open>db_now\<close> the server default of \<^verbatim>\<open>created_at\<close>, \<open>hex\<close>
  the value of \<^verbatim>\<open>uuid.uuid4().hex\<close> and \<open>pid\<close> the primary key of the new payment row.
  \<open>create_payment\<close> is the tail of the function (lines 72 to 99), reached when no
  payment of the booking is \<^verbatim>\<open>COMPLETED\<close> or \<^verbatim>\<open>PENDING\<close>. Its flush (line 90) inserts
  the payment row; \<^verbatim>\<open>booking_id\<close> is \<^verbatim>\<open>unique=True\<close>, so the insert is refused
  when a payment row of the booking exists already.
\<close>

definition create_payment ::
  "'p db \<Rightarrow> datetime \<Rightarrow> datetime \<Rightarrow> string \<Rightarrow> int \<Rightarrow> int \<Rightarrow> 'p Booking \<Rightarrow> PaymentMethod
     \<Rightarrow> error + ('p PaymentSessionResponse \<times> 'p db)" where
  "create_payment s utcnow db_now hex pid booking_id booking method =
     (let sid = ''pay_session_'' @ take 16 hex;
          payment = \<lparr>pay_id = pid,
                     pay_booking_id = booking_id,
                     amount = total_price booking,
                     currency = ''USD'',
                     pay_status = PAY_PENDING,
                     payment_method = Some method,
                     transaction_id = None,
                     payment_session_id = Some sid,
                     paid_at = None,
                     pay_created_at = db_now\<rparr>;
          s1 = s\<lparr>payments := payments s @ [payment]\<rparr>;
          s2 = s1\<lparr>bookings :=
                   (bookings s1)(booking_id \<mapsto> booking\<lparr>booking_session_id := Some sid\<rparr>)\<rparr>
      in if list_ex (\<lambda>p. pay_booking_id p = booking_id) (payments s)
         then Inl IntegrityError
         else Inr (\<lparr>resp_payment_session_id = Some sid,
                    resp_payment_url = payment_gateway_url @ ''/'' @ sid,
                    resp_amount = amount payment,
                    resp_currency = currency payment,
                    resp_expires_at = utcnow + 30 * 60\<rparr>, s2))"

definition initiate_payment ::
  "'p db \<Rightarrow> datetime \<Rightarrow> datetime \<Rightarrow> string \<Rightarrow> int \<Rightarrow> int \<Rightarrow> User \<Rightarrow> PaymentMethod
     \<Rightarrow> error + ('p PaymentSessionResponse \<times> 'p db)" where
  "initiate_payment s utcnow db_now hex pid booking_id user method =
     (case bookings s booking_id of
        None \<Rightarrow> Inl BookingNotFound
      | Some booking \<Rightarrow>
          if booking_user_id booking \<noteq> user_id user
          then Inl (HTTPException 403 (Msg ''Not authorized to pay for this booking''))
          else if status booking \<noteq> PENDING
          then Inl PayInvalidState
          else
            case scalar_one_or_none
                   (filter (\<lambda>p. pay_booking_id p = booking_id) (payments s)) of
              Inl e \<Rightarrow> Inl e
            | Inr None \<Rightarrow> create_payment s utcnow db_now hex pid booking_id booking method
            | Inr (Some existing_payment) \<Rightarrow>
                if pay_status existing_payment = PAY_COMPLETED
                then Inl AlreadyPaid
                else if pay_status existing_payment = PAY_PENDING
                then Inr (\<lparr>resp_payment_session_id = payment_session_id existing_payment,
                           resp_payment_url =
                             payment_gateway_url @ ''/''
                               @ fstr (payment_session_id existing_payment),
                           resp_amount = amount existing_payment,
                           resp_currency = currency existing_payment,
                           resp_expires_at = pay_created_at existing_payment + 30 * 60\<rparr>, s)
                else create_payment s utcnow db_now hex pid booking_id booking method)"

text \<open>The writes of \<^verbatim>\<open>process_webhook\<close> to the payment row it has loaded.\<close>

definition complete_payment :: "int \<Rightarrow> string \<Rightarrow> datetime \<Rightarrow> 'p Payment list \<Rightarrow> 'p Payment list" where
  "complete_payment pid txn utcnow ps =
     map (\<lambda>p. if pay_id p = pid
              then p\<lparr>pay_status := PAY_COMPLETED, transaction_id := Some txn, paid_at := Some utcnow\<rparr>
              else p) ps"

definition fail_payment :: "int \<Rightarrow> string \<Rightarrow> 'p Payment list \<Rightarrow> 'p Payment list" where
  "fail_payment pid txn ps =
     map (\<lambda>p. if pay_id p = pid
              then p\<lparr>pay_status := PAY_FAILED, transaction_id := Some txn\<rparr>
              else p) ps"

text \<open>
  \<^verbatim>\<open>transaction_id\<close> is \<^verbatim>\<open>unique=True\<close>: the flush that writes \<open>txn\<close> to the row
  \<open>pid\<close> is refused when another payment row holds \<open>txn\<close> already.
\<close>

definition transaction_id_taken :: "'p Payment list \<Rightarrow> int \<Rightarrow> string \<Rightarrow> bool" where
  "transaction_id_taken ps pid txn =
     list_ex (\<lambda>q. pay_id q \<noteq> pid \<and> transaction_id q = Some txn) ps"

text \<open>\<^verbatim>\<open>process_webhook(webhook_data)\<close>; \<open>utcnow\<close> is \<^verbatim>\<open>datetime.utcnow()\<close>.\<close>

definition process_webhook ::
  "'p db \<Rightarrow> datetime \<Rightarrow> 'p PaymentWebhookPayload \<Rightarrow> error + (WebhookResult \<times> 'p db)" where
  "process_webhook s utcnow webhook_data =
     (case scalar_one_or_none
             (filter (\<lambda>p. payment_session_id p = Some (wh_payment_session_id webhook_data))
                (payments s)) of
        Inl e \<Rightarrow> Inl e
      | Inr None \<Rightarrow> Inl SessionNotFound
      | Inr (Some payment) \<Rightarrow>
          if pay_status payment \<noteq> PAY_PENDING
          then Inl AlreadyProcessed
          else
            case bookings s (pay_booking_id payment) of
              None \<Rightarrow> Inl BookingNotFound
            | Some booking \<Rightarrow>
                if transaction_id_taken (payments s) (pay_id payment)
                     (wh_transaction_id webhook_data)
                then Inl IntegrityError
                else if wh_status webhook_data = ''success''
                then
                  let s1 = s\<lparr>payments :=
                              complete_payment (pay_id payment) (wh_transaction_id webhook_data)
                                utcnow (payments s)\<rparr>;
                      s2 = s1\<lparr>bookings :=
                               (bookings s1)(pay_booking_id payment \<mapsto> booking\<lparr>status := CONFIRMED\<rparr>)\<rparr>
                  in Inr (\<lparr>res_message = ''Payment successful'',
                           res_payment_id = pay_id payment,
                           res_booking_id = pay_booking_id payment,
                           res_booking_status = CONFIRMED,
                           res_payment_status = PAY_COMPLETED\<rparr>, s2)
                else
                  let s1 = s\<lparr>payments :=
                              fail_payment (pay_id payment) (wh_transaction_id webhook_data)
                                (payments s)\<rparr>;
                      s2 = s1\<lparr>bookings :=
                               (bookings s1)(pay_booking_id payment \<mapsto> booking\<lparr>status := EXPIRED\<rparr>)\<rparr>
                  in Inr (\<lparr>res_message = ''Payment failed'',
                           res_payment_id = pay_id payment,
                           res_booking_id = pay_booking_id payment,
                           res_booking_status = EXPIRED,
                           res_payment_status = PAY_FAILED\<rparr>, s2))"

section \<open>InventoryService\<close>

definition verify_room_access :: "'p db \<Rightarrow> int \<Rightarrow> User \<Rightarrow> error + 'p Room" where
  "verify_room_access s room_id user =
     (case rooms s room_id of
        None \<Rightarrow> Inl (HTTPException 404 (Msg ''Room not found''))
      | Some room \<Rightarrow>
          if role user \<noteq> ADMIN
          then (case hotels s (room_hotel_id room) of
                  None \<Rightarrow> Inl AttributeError
                | Some hotel \<Rightarrow>
                    if owner_id hotel \<noteq> user_id user
                    then Inl (HTTPException 403
                               (Msg ''Not authorized to access this room's inventory''))
                    else Inr room)
          else Inr room)"

text \<open>\<^verbatim>\<open>x or default\<close> on an optional number: \<^verbatim>\<open>None\<close> and zero are both falsy.\<close>

definition or_default :: "('a::zero) field \<Rightarrow> 'a \<Rightarrow> 'a" where
  "or_default x dflt = (case x of Value v \<Rightarrow> if v = 0 then dflt else v | _ \<Rightarrow> dflt)"

text \<open>
  \<^verbatim>\<open>setattr(inventory, field, value)\<close> for a field of
  \<^verbatim>\<open>model_dump(exclude_unset=True)\<close>; both columns are \<^verbatim>\<open>nullable=False\<close>, so a
  \<^verbatim>\<open>null\<close> is refused when the row is flushed.
\<close>

definition set_field :: "'a field \<Rightarrow> 'a \<Rightarrow> error + 'a" where
  "set_field x old = (case x of Unset \<Rightarrow> Inr old | Null \<Rightarrow> Inl IntegrityError | Value v \<Rightarrow> Inr v)"

text \<open>
  \<^verbatim>\<open>update_inventory(room_id, inv_date, user, update_data)\<close>. The second call of
  \<^verbatim>\<open>_verify_room_access\<close>, made when the record is missing, reads the same tables as
  the first and returns the same room.
\<close>

definition update_inventory ::
  "('p::zero) db \<Rightarrow> int \<Rightarrow> date \<Rightarrow> User \<Rightarrow> 'p InventoryUpdate \<Rightarrow> error + ('p Inventory \<times> 'p db)" where
  "update_inventory s room_id inv_date user update_data =
     (case verify_room_access s room_id user of
        Inl e \<Rightarrow> Inl e
      | Inr room \<Rightarrow>
          (case inventories s (room_id, inv_date) of
             None \<Rightarrow>
               let inventory = \<lparr>available_count =
                                  or_default (iu_available_count update_data) (total_count room),
                                booked_count = 0,
                                price = or_default (iu_price update_data) (base_price room)\<rparr>
               in Inr (inventory,
                       s\<lparr>inventories := (inventories s)((room_id, inv_date) \<mapsto> inventory)\<rparr>)
           | Some inventory \<Rightarrow>
               (case set_field (iu_available_count update_data) (available_count inventory) of
                  Inl e \<Rightarrow> Inl e
                | Inr a \<Rightarrow>
                    (case set_field (iu_price update_data) (price inventory) of
                       Inl e \<Rightarrow> Inl e
                     | Inr pr \<Rightarrow>
                         let inventory' = inventory\<lparr>available_count := a, price := pr\<rparr>
                         in Inr (inventory',
                                 s\<lparr>inventories :=
                                     (inventories s)((room_id, inv_date) \<mapsto> inventory')\<rparr>)))))"

text \<open>
  One round of the \<^verbatim>\<open>while current_date <= bulk_data.end_date\<close> loop of
  \<^verbatim>\<open>bulk_update_inventory\<close>: the record written for \<open>d\<close>.
\<close>

definition bulk_record ::
  "('p::zero) Room \<Rightarrow> 'p InventoryBulkUpdate \<Rightarrow> 'p Inventory option \<Rightarrow> 'p Inventory" where
  "bulk_record room bulk_data found =
     (case found of
        None \<Rightarrow>
          \<lparr>available_count = or_default (ib_available_count bulk_data) (total_count room),
           booked_count = 0,
           price = or_default (ib_price bulk_data) (base_price room)\<rparr>
      | Some inventory \<Rightarrow>
          inventory\<lparr>available_count :=
                      (case ib_available_count bulk_data of
                         Value v \<Rightarrow> v | _ \<Rightarrow> available_count inventory),
                    price :=
                      (case ib_price bulk_data of Value v \<Rightarrow> v | _ \<Rightarrow> price inventory)\<rparr>)"

fun bulk_dates ::
  "(int \<times> date \<rightharpoonup> ('p::zero) Inventory) \<Rightarrow> 'p Room \<Rightarrow> int \<Rightarrow> 'p InventoryBulkUpdate \<Rightarrow> date list
     \<Rightarrow> 'p Inventory list \<Rightarrow> 'p Inventory list \<times> (int \<times> date \<rightharpoonup> 'p Inventory)" where
  "bulk_dates tbl room room_id bulk_data [] updated = (updated, tbl)"
| "bulk_dates tbl room room_id bulk_data (d # ds) updated =
     (let inventory = bulk_record room bulk_data (tbl (room_id, d))
      in bulk_dates (tbl((room_id, d) \<mapsto> inventory)) room room_id bulk_data ds
           (updated @ [inventory]))"

definition bulk_update_inventory ::
  "('p::zero) db \<Rightarrow> int \<Rightarrow> User \<Rightarrow> 'p InventoryBulkUpdate \<Rightarrow> error + ('p Inventory list \<times> 'p db)" where
  "bulk_update_inventory s room_id user bulk_data =
     (case verify_room_access s room_id user of
        Inl e \<Rightarrow> Inl e
      | Inr room \<Rightarrow>
          if ib_start_date bulk_data > ib_end_date bulk_data
          then Inl (HTTPException 400 (Msg ''Start date must be before end date''))
          else
            let (updated, tbl) =
                  bulk_dates (inventories s) room room_id bulk_data
                    [ib_start_date bulk_data..ib_end_date bulk_data] []
            in Inr (updated, s\<lparr>inventories := tbl\<rparr>))"

section \<open>Example data\<close>

text \<open>
  A small store over integer prices: hotel 1 (owned by user 9) with room 1, two nights of
  inventory for it, two guests, and booking 5 of user 1 for both nights.
\<close>

definition ex_user :: User where
  "ex_user = \<lparr>user_id = 1, role = GUEST\<rparr>"

definition ex_owner :: User where
  "ex_owner = \<lparr>user_id = 9, role = HOTEL_ADMIN\<rparr>"

definition ex_booking :: "BookingStatus \<Rightarrow> int Booking" where
  "ex_booking st =
     \<lparr>booking_user_id = 1, booking_hotel_id = 1, booking_room_id = 1,
      check_in_date = 10, check_out_date = 12, rooms_count = 2, total_price = 440,
      status = st, special_requests = None, cancellation_reason = None,
      booking_session_id = None\<rparr>"

definition ex_payment :: "PaymentStatus \<Rightarrow> int Payment" where
  "ex_payment st =
     \<lparr>pay_id = 1, pay_booking_id = 5, amount = 440, currency = ''USD'', pay_status = st,
      payment_method = Some UPI, transaction_id = None,
      payment_session_id = Some ''pay_session_0123456789abcdef'', paid_at = None,
      pay_created_at = 1000\<rparr>"

definition ex_db :: "BookingStatus \<Rightarrow> int Payment list \<Rightarrow> int db" where
  "ex_db st ps =
     \<lparr>hotels = [1 \<mapsto> \<lparr>owner_id = 9, is_active = True\<rparr>],
      rooms = [1 \<mapsto> \<lparr>room_hotel_id = 1, base_price = 100, total_count = 5\<rparr>],
      guests = [7 \<mapsto> \<lparr>guest_user_id = 1\<rparr>, 8 \<mapsto> \<lparr>guest_user_id = 2\<rparr>],
      inventories = [(1, 10) \<mapsto> \<lparr>available_count = 5, booked_count = 3, price = 100\<rparr>,
                     (1, 11) \<mapsto> \<lparr>available_count = 5, booked_count = 2, price = 120\<rparr>],
      bookings = [5 \<mapsto> ex_booking st],
      booking_guests = {},
      payments = ps\<rparr>"

section \<open>Auxiliary definitions\<close>

text \<open>
  The payment table after \<^verbatim>\<open>cancel_booking\<close>: the payment of the booking, when it is
  \<^verbatim>\<open>COMPLETED\<close>, is marked \<^verbatim>\<open>REFUNDED\<close>.
\<close>

definition refund_completed :: "'p db \<Rightarrow> int \<Rightarrow> 'p Payment list" where
  "refund_completed s bid =
     (case booking_payment s bid of
        None \<Rightarrow> payments s
      | Some p \<Rightarrow>
          if pay_status p = PAY_COMPLETED
          then map (\<lambda>q. if pay_id q = pay_id p then q\<lparr>pay_status := PAY_REFUNDED\<rparr> else q) (payments s)
          else payments s)"

text \<open>
  The checks \<^verbatim>\<open>init_booking\<close> runs before it looks at the inventory: the dates, the
  hotel and the room of the request.
\<close>

definition request_ok :: "'p db \<Rightarrow> date \<Rightarrow> BookingCreate \<Rightarrow> bool" where
  "request_ok s today bd \<longleftrightarrow>
     bc_check_in_date bd < bc_check_out_date bd
     \<and> today \<le> bc_check_in_date bd
     \<and> (case hotels s (bc_hotel_id bd) of None \<Rightarrow> False | Some h \<Rightarrow> is_active h)
     \<and> (case rooms s (bc_room_id bd) of
          None \<Rightarrow> False | Some r \<Rightarrow> room_hotel_id r = bc_hotel_id bd)"

text \<open>
  A night passes the availability check when its record exists and has at least
  \<open>rc\<close> rooms left; \<open>date_error\<close> is the rejection of a night that does not pass.
\<close>

definition date_passes :: "'p db \<Rightarrow> int \<Rightarrow> int \<Rightarrow> date \<Rightarrow> bool" where
  "date_passes s rid rc d =
     (case inventories s (rid, d) of
        None \<Rightarrow> False
      | Some r \<Rightarrow> rc \<le> available_count r - booked_count r)"

definition date_error :: "'p db \<Rightarrow> int \<Rightarrow> date \<Rightarrow> error" where
  "date_error s rid d =
     (case inventories s (rid, d) of
        None \<Rightarrow> NoInventory d
      | Some r \<Rightarrow> InsufficientCapacity d)"

text \<open>
  The price of a stay as the specification words it: the sum, night after night, of the
  night's price times the number of rooms, read from the table \<open>s\<close>.
\<close>

definition snapshot_total ::
  "('p::{zero,plus,times}) db \<Rightarrow> (int \<Rightarrow> 'p) \<Rightarrow> int \<Rightarrow> int \<Rightarrow> date list \<Rightarrow> 'p" where
  "snapshot_total s fl rid rc ds =
     foldl (\<lambda>acc d. acc + price (the (inventories s (rid, d))) * fl rc) 0 ds"

definition ex_request :: "date \<Rightarrow> int \<Rightarrow> BookingCreate" where
  "ex_request co rc =
     \<lparr>bc_hotel_id = 1, bc_room_id = 1, bc_check_in_date = 10, bc_check_out_date = co,
      bc_rooms_count = rc, bc_special_requests = None\<rparr>"

definition ex_webhook :: "string \<Rightarrow> int PaymentWebhookPayload" where
  "ex_webhook outcome =
     \<lparr>wh_payment_session_id = ''pay_session_0123456789abcdef'', wh_transaction_id = ''txn_1'',
      wh_status = outcome, wh_amount = 440, wh_currency = ''USD''\<rparr>"

definition ex_hex :: string where
  "ex_hex = ''0123456789abcdef0123456789abcdef''"



text \<open>A guest reference belongs to the requesting user.\<close>

definition guest_of_user :: "'p db \<Rightarrow> User \<Rightarrow> int \<Rightarrow> bool" where
  "guest_of_user s u g =
     (case guests s g of None \<Rightarrow> False | Some guest \<Rightarrow> guest_user_id guest = user_id u)"

text \<open>
  A second store: booking 4, confirmed and paid under the transaction identifier
  \<^verbatim>\<open>txn_1\<close>, beside booking 5 with its pending payment.
\<close>

definition ex_paid_payment :: "int Payment" where
  "ex_paid_payment =
     \<lparr>pay_id = 2, pay_booking_id = 4, amount = 440, currency = ''USD'',
      pay_status = PAY_COMPLETED, payment_method = Some UPI, transaction_id = Some ''txn_1'',
      payment_session_id = Some ''pay_session_ffffffffffffffff'', paid_at = Some 500,
      pay_created_at = 400\<rparr>"

definition ex_db_two :: "int db" where
  "ex_db_two =
     (ex_db PENDING [ex_payment PAY_PENDING, ex_paid_payment])
       \<lparr>bookings := [5 \<mapsto> ex_booking PENDING, 4 \<mapsto> ex_booking CONFIRMED]\<rparr>"

section \<open>The inventory loops\<close>

lemmas ex_defs = ex_user_def ex_owner_def ex_booking_def ex_payment_def ex_db_def ex_request_def ex_webhook_def ex_paid_payment_def ex_db_two_def

lemma distinct_night_dates: "distinct (night_dates ci co)"
  by (simp add: night_dates_def distinct_map inj_on_def)

lemma set_night_dates: "set (night_dates ci co) = {d. ci \<le> d \<and> d < co}"
  by (auto simp: night_dates_def nights_def image_iff intro: exI[of _ "x - ci" for x])

lemma release_dates_notin:
  "d \<notin> set ds \<Longrightarrow> release_dates tbl rid rc ds (rid, d) = tbl (rid, d)"
  by (induction ds arbitrary: tbl) (auto split: option.splits)

lemma release_dates_other_room:
  "r \<noteq> rid \<Longrightarrow> release_dates tbl rid rc ds (r, d) = tbl (r, d)"
  by (induction ds arbitrary: tbl) (auto split: option.splits)

lemma release_dates_in:
  "distinct ds \<Longrightarrow> d \<in> set ds \<Longrightarrow>
   release_dates tbl rid rc ds (rid, d) =
     map_option (\<lambda>r. r\<lparr>booked_count := max 0 (booked_count r - rc)\<rparr>) (tbl (rid, d))"
proof (induction ds arbitrary: tbl)
  case Nil
  then show ?case by simp
next
  case (Cons a ds)
  show ?case
  proof (cases "a = d")
    case True
    with Cons.prems have "d \<notin> set ds" by simp
    then show ?thesis using True
      by (simp add: release_dates_notin split: option.splits)
  next
    case False
    with Cons.prems have "distinct ds" "d \<in> set ds" by auto
    from Cons.IH[OF this] show ?thesis using False
      by (simp split: option.splits)
  qed
qed

lemma reserve_dates_notin:
  "d \<notin> set ds \<Longrightarrow> reserve_dates tbl rid rc ds (rid, d) = tbl (rid, d)"
  by (induction ds arbitrary: tbl) (auto split: option.splits)

lemma reserve_dates_other_room:
  "r \<noteq> rid \<Longrightarrow> reserve_dates tbl rid rc ds (r, d) = tbl (r, d)"
  by (induction ds arbitrary: tbl) (auto split: option.splits)

lemma reserve_dates_in:
  "distinct ds \<Longrightarrow> d \<in> set ds \<Longrightarrow>
   reserve_dates tbl rid rc ds (rid, d) =
     map_option (\<lambda>r. r\<lparr>booked_count := booked_count r + rc\<rparr>) (tbl (rid, d))"
proof (induction ds arbitrary: tbl)
  case Nil
  then show ?case by simp
next
  case (Cons a ds)
  show ?case
  proof (cases "a = d")
    case True
    with Cons.prems have "d \<notin> set ds" by simp
    then show ?thesis using True
      by (simp add: reserve_dates_notin split: option.splits)
  next
    case False
    with Cons.prems have "distinct ds" "d \<in> set ds" by auto
    from Cons.IH[OF this] show ?thesis using False
      by (simp split: option.splits)
  qed
qed

text \<open>What \<^verbatim>\<open>_release_inventory\<close> leaves in each record of the table.\<close>

lemma release_inventory_apply:
  "inventories (release_inventory s b) (rid, d) =
     (if rid = booking_room_id b \<and> d \<in> set (night_dates (check_in_date b) (check_out_date b))
      then map_option (\<lambda>r. r\<lparr>booked_count := max 0 (booked_count r - rooms_count b)\<rparr>)
             (inventories s (rid, d))
      else inventories s (rid, d))"
proof (cases "rid = booking_room_id b")
  case False
  then show ?thesis by (simp add: release_inventory_def release_dates_other_room)
next
  case True
  show ?thesis
  proof (cases "d \<in> set (night_dates (check_in_date b) (check_out_date b))")
    case True
    with \<open>rid = booking_room_id b\<close> show ?thesis
      by (simp add: release_inventory_def release_dates_in distinct_night_dates)
  next
    case False
    with \<open>rid = booking_room_id b\<close> show ?thesis
      by (simp add: release_inventory_def release_dates_notin)
  qed
qed


text \<open>What \<^verbatim>\<open>_reserve_inventory\<close> leaves in each record of the table.\<close>

lemma reserve_inventory_apply:
  "inventories (reserve_inventory s b) (rid, d) =
     (if rid = booking_room_id b \<and> d \<in> set (night_dates (check_in_date b) (check_out_date b))
      then map_option (\<lambda>r. r\<lparr>booked_count := booked_count r + rooms_count b\<rparr>)
             (inventories s (rid, d))
      else inventories s (rid, d))"
proof (cases "rid = booking_room_id b")
  case False
  then show ?thesis by (simp add: reserve_inventory_def reserve_dates_other_room)
next
  case True
  show ?thesis
  proof (cases "d \<in> set (night_dates (check_in_date b) (check_out_date b))")
    case True
    with \<open>rid = booking_room_id b\<close> show ?thesis
      by (simp add: reserve_inventory_def reserve_dates_in distinct_night_dates)
  next
    case False
    with \<open>rid = booking_room_id b\<close> show ?thesis
      by (simp add: reserve_inventory_def reserve_dates_notin)
  qed
qed

lemma reserve_inventory_fields:
  "hotels (reserve_inventory s b) = hotels s"
  "rooms (reserve_inventory s b) = rooms s"
  "guests (reserve_inventory s b) = guests s"
  "bookings (reserve_inventory s b) = bookings s"
  "booking_guests (reserve_inventory s b) = booking_guests s"
  "payments (reserve_inventory s b) = payments s"
  by (simp_all add: reserve_inventory_def)
section \<open>Release\<close>

text \<open>
  Claim C5, as the code has it. For a booking of at least one room, a single
  \<^verbatim>\<open>_release_inventory\<close> lowers \<open>booked_count\<close> of every night of the range by
  \<open>rooms_count\<close>, clamped at 0 (so never negative), and a second one lowers it again:
  after two releases each night stands at \<open>max 0 (booked_count - 2 * rooms_count)\<close>.
  Releasing twice gives the state of releasing once exactly when every record of the range
  held at most \<open>rooms_count\<close> booked rooms before the first release.
\<close>

theorem release_twice:
  assumes rc: "1 \<le> rooms_count b"
  shows "(\<forall>d \<in> set (night_dates (check_in_date b) (check_out_date b)). \<forall>r.
            inventories s (booking_room_id b, d) = Some r \<longrightarrow>
              inventories (release_inventory s b) (booking_room_id b, d)
                = Some (r\<lparr>booked_count := max 0 (booked_count r - rooms_count b)\<rparr>)
              \<and> inventories (release_inventory (release_inventory s b) b) (booking_room_id b, d)
                = Some (r\<lparr>booked_count := max 0 (booked_count r - 2 * rooms_count b)\<rparr>))
       \<and> (release_inventory (release_inventory s b) b = release_inventory s b \<longleftrightarrow>
            (\<forall>d \<in> set (night_dates (check_in_date b) (check_out_date b)). \<forall>r.
               inventories s (booking_room_id b, d) = Some r \<longrightarrow> booked_count r \<le> rooms_count b))"
proof (intro conjI ballI allI impI)
  fix d r
  assume d: "d \<in> set (night_dates (check_in_date b) (check_out_date b))"
    and r: "inventories s (booking_room_id b, d) = Some r"
  show "inventories (release_inventory s b) (booking_room_id b, d)
          = Some (r\<lparr>booked_count := max 0 (booked_count r - rooms_count b)\<rparr>)"
    using d r by (simp add: release_inventory_apply)
  have "max 0 (max 0 (booked_count r - rooms_count b) - rooms_count b)
          = max 0 (booked_count r - 2 * rooms_count b)"
    using rc by linarith
  then show "inventories (release_inventory (release_inventory s b) b) (booking_room_id b, d)
          = Some (r\<lparr>booked_count := max 0 (booked_count r - 2 * rooms_count b)\<rparr>)"
    using d r by (simp add: release_inventory_apply)
next
  let ?nd = "set (night_dates (check_in_date b) (check_out_date b))"
  let ?s1 = "release_inventory s b"
  let ?s2 = "release_inventory ?s1 b"
  show "?s2 = ?s1 \<longleftrightarrow>
          (\<forall>d \<in> ?nd. \<forall>r. inventories s (booking_room_id b, d) = Some r
             \<longrightarrow> booked_count r \<le> rooms_count b)" (is "_ \<longleftrightarrow> ?R")
  proof
    assume "?s2 = ?s1"
    then have same: "inventories ?s2 = inventories ?s1" by simp
    show ?R
    proof (intro ballI allI impI)
      fix d r
      assume d: "d \<in> ?nd" and r: "inventories s (booking_room_id b, d) = Some r"
      from same have "booked_count (the (inventories ?s2 (booking_room_id b, d)))
                       = booked_count (the (inventories ?s1 (booking_room_id b, d)))"
        by simp
      with d r have "max 0 (max 0 (booked_count r - rooms_count b) - rooms_count b)
                      = max 0 (booked_count r - rooms_count b)"
        by (simp add: release_inventory_apply)
      with rc show "booked_count r \<le> rooms_count b" by linarith
    qed
  next
    assume R: ?R
    have "inventories ?s2 k = inventories ?s1 k" for k
    proof (cases k)
      case (Pair rid d)
      show ?thesis
      proof (cases "rid = booking_room_id b \<and> d \<in> ?nd")
        case False
        then show ?thesis unfolding Pair by (auto simp: release_inventory_apply)
      next
        case True
        show ?thesis
        proof (cases "inventories s (rid, d)")
          case None
          then show ?thesis unfolding Pair using True by (simp add: release_inventory_apply)
        next
          case (Some r)
          with R True have "booked_count r \<le> rooms_count b" by auto
          then have "max 0 (max 0 (booked_count r - rooms_count b) - rooms_count b)
                      = max 0 (booked_count r - rooms_count b)"
            using rc by linarith
          then show ?thesis unfolding Pair using True Some
            by (simp add: release_inventory_apply)
        qed
      qed
    qed
    then have invs: "inventories ?s2 = inventories ?s1" by (rule ext)
    have "?s2 = ?s1\<lparr>inventories := inventories ?s2\<rparr>"
      by (simp add: release_inventory_def)
    also have "\<dots> = ?s1\<lparr>inventories := inventories ?s1\<rparr>"
      using invs by simp
    also have "\<dots> = ?s1" by simp
    finally show "?s2 = ?s1" .
  qed
qed

text \<open>
  The theorem at booking 5 (two rooms, nights 10 and 11) on a table that holds 3 booked
  rooms for night 10: one release leaves 1, two leave 0.
\<close>

theorem release_twice_witness:
  "1 \<le> rooms_count (ex_booking CONFIRMED)
   \<and> inventories (release_inventory (ex_db CONFIRMED []) (ex_booking CONFIRMED)) (1, 10)
       = Some \<lparr>available_count = 5, booked_count = 1, price = 100\<rparr>
   \<and> inventories (release_inventory (release_inventory (ex_db CONFIRMED []) (ex_booking CONFIRMED))
         (ex_booking CONFIRMED)) (1, 10)
       = Some \<lparr>available_count = 5, booked_count = 0, price = 100\<rparr>"
  using release_twice [of "ex_booking CONFIRMED" "ex_db CONFIRMED []"]
  by (simp add: ex_defs night_dates_def nights_def)

text \<open>
  Claim C5 as stated fails: on that table the second release changes the record of
  night 10 again.
\<close>

theorem release_idempotent_counterexample:
  "inventories (release_inventory (release_inventory (ex_db CONFIRMED []) (ex_booking CONFIRMED))
         (ex_booking CONFIRMED)) (1, 10)
     \<noteq> inventories (release_inventory (ex_db CONFIRMED []) (ex_booking CONFIRMED)) (1, 10)"
  by (simp add: ex_defs release_inventory_def night_dates_def nights_def upto.simps)
section \<open>Cancellation\<close>



lemma cancel_booking_Inl:
  "get_booking_by_id s bid u = Inr b \<Longrightarrow> status b \<in> {CANCELLED, CHECKED_OUT} \<Longrightarrow>
   cancel_booking s bid u reason = Inl CancelInvalidState"
  by (simp add: cancel_booking_def)

lemma cancel_booking_Inr:
  assumes "get_booking_by_id s bid u = Inr b" and "status b \<notin> {CANCELLED, CHECKED_OUT}"
  shows "cancel_booking s bid u reason =
     Inr (b\<lparr>status := CANCELLED, cancellation_reason := reason\<rparr>,
          (release_inventory s b)
            \<lparr>bookings := (bookings s)(bid \<mapsto> b\<lparr>status := CANCELLED, cancellation_reason := reason\<rparr>),
             payments := refund_completed s bid\<rparr>)"
  using assms
  by (simp add: cancel_booking_def Let_def booking_payment_def release_inventory_def
        refund_completed_def set_payment_status_def split: option.splits)

lemma ex_get_booking:
  "get_booking_by_id (ex_db st ps) 5 ex_user = Inr (ex_booking st)"
  by (simp add: get_booking_by_id_def ex_defs)


text \<open>
  Claim C4, as the code has it. For a booking the caller may access, \<^verbatim>\<open>cancel_booking\<close>
  fails with \<open>CancelInvalidState\<close> (a failed call writes nothing) exactly when the status is
  \<^verbatim>\<open>CANCELLED\<close> or \<^verbatim>\<open>CHECKED_OUT\<close>; from \<^verbatim>\<open>PENDING\<close>, \<^verbatim>\<open>CONFIRMED\<close>,
  \<^verbatim>\<open>CHECKED_IN\<close> and \<^verbatim>\<open>EXPIRED\<close> it succeeds and stores the booking as
  \<^verbatim>\<open>CANCELLED\<close>.
\<close>

theorem cancel_booking_guard:
  assumes "get_booking_by_id s bid u = Inr b"
  shows "(status b \<in> {CANCELLED, CHECKED_OUT} \<longrightarrow>
            cancel_booking s bid u reason = Inl CancelInvalidState)
       \<and> (status b \<in> {PENDING, CONFIRMED, CHECKED_IN, EXPIRED} \<longrightarrow>
            (\<exists>b' s'. cancel_booking s bid u reason = Inr (b', s')
               \<and> status b' = CANCELLED \<and> bookings s' bid = Some b'))"
proof (intro conjI impI)
  assume "status b \<in> {CANCELLED, CHECKED_OUT}"
  with assms show "cancel_booking s bid u reason = Inl CancelInvalidState"
    by (rule cancel_booking_Inl)
next
  assume "status b \<in> {PENDING, CONFIRMED, CHECKED_IN, EXPIRED}"
  then have "status b \<notin> {CANCELLED, CHECKED_OUT}" by auto
  from cancel_booking_Inr[OF assms this, of reason]
  show "\<exists>b' s'. cancel_booking s bid u reason = Inr (b', s')
               \<and> status b' = CANCELLED \<and> bookings s' bid = Some b'"
    by simp
qed


text \<open>
  The theorem at booking 5: refused when it is \<^verbatim>\<open>CHECKED_OUT\<close>, cancelled when it is
  \<^verbatim>\<open>PENDING\<close>.
\<close>

theorem cancel_booking_guard_witness:
  "get_booking_by_id (ex_db CHECKED_OUT []) 5 ex_user = Inr (ex_booking CHECKED_OUT)
   \<and> cancel_booking (ex_db CHECKED_OUT []) 5 ex_user None = Inl CancelInvalidState
   \<and> get_booking_by_id (ex_db PENDING []) 5 ex_user = Inr (ex_booking PENDING)
   \<and> (\<exists>b' s'. cancel_booking (ex_db PENDING []) 5 ex_user None = Inr (b', s')
         \<and> status b' = CANCELLED \<and> bookings s' 5 = Some b')"
  using cancel_booking_guard [OF ex_get_booking, of CHECKED_OUT "[]" None]
    cancel_booking_guard [OF ex_get_booking, of PENDING "[]" None]
  by (simp add: ex_get_booking) (simp add: ex_booking_def)


text \<open>
  Claim C4 as stated fails: booking 5 in status \<^verbatim>\<open>CHECKED_IN\<close> is cancelled, not
  refused.
\<close>

theorem cancel_checked_in_counterexample:
  "status (ex_booking CHECKED_IN) = CHECKED_IN
   \<and> get_booking_by_id (ex_db CHECKED_IN []) 5 ex_user = Inr (ex_booking CHECKED_IN)
   \<and> map_sum id (status \<circ> fst) (cancel_booking (ex_db CHECKED_IN []) 5 ex_user None)
       = Inr CANCELLED"
  by (simp add: cancel_booking_def get_booking_by_id_def ex_defs Let_def booking_payment_def)



section \<open>Reservation\<close>

lemma check_availability_Inr:
  "\<forall>d \<in> set ds. date_passes s rid rc d \<Longrightarrow>
   check_availability s fl rid rc ds acc =
     Inr (foldl (\<lambda>acc d. acc + price (the (inventories s (rid, d))) * fl rc) acc ds)"
  by (induction ds arbitrary: acc) (auto simp: date_passes_def split: option.splits)

lemma check_availability_Inl:
  "\<forall>x \<in> set pre. date_passes s rid rc x \<Longrightarrow> \<not> date_passes s rid rc d \<Longrightarrow>
   check_availability s fl rid rc (pre @ d # post) acc = Inl (date_error s rid d)"
  by (induction pre arbitrary: acc)
     (auto simp: date_passes_def date_error_def split: option.splits)

lemma check_availability_passes:
  "check_availability s fl rid rc ds acc = Inr t \<Longrightarrow> \<forall>d \<in> set ds. date_passes s rid rc d"
proof (induction ds arbitrary: acc)
  case Nil
  then show ?case by simp
next
  case (Cons a ds)
  from Cons.prems obtain r where r: "inventories s (rid, a) = Some r"
    and ok: "\<not> available_count r - booked_count r < rc"
    and rest: "check_availability s fl rid rc ds (acc + price r * fl rc) = Inr t"
    by (auto split: option.splits if_splits)
  from r ok have "date_passes s rid rc a" by (simp add: date_passes_def)
  with Cons.IH[OF rest] show ?case by simp
qed

lemma sorted_night_dates: "sorted_wrt (<) (night_dates ci co)"
  by (simp add: night_dates_def sorted_wrt_map sorted_wrt_upto)

lemma night_dates_split:
  assumes "d \<in> set (night_dates ci co)"
  shows "\<exists>pre post. night_dates ci co = pre @ d # post \<and> (\<forall>x \<in> set pre. x < d)"
proof -
  from assms obtain pre post where sp: "night_dates ci co = pre @ d # post"
    by (auto dest: split_list)
  with sorted_night_dates[of ci co] have "\<forall>x \<in> set pre. x < d"
    by (simp add: sorted_wrt_append)
  with sp show ?thesis by blast
qed

lemma init_booking_checked:
  assumes "request_ok s today bd"
  shows "init_booking s fl today bid u bd =
     (case check_availability s fl (bc_room_id bd) (bc_rooms_count bd)
             (night_dates (bc_check_in_date bd) (bc_check_out_date bd)) 0 of
        Inl e \<Rightarrow> Inl e
      | Inr tot \<Rightarrow>
          let b = \<lparr>booking_user_id = user_id u, booking_hotel_id = bc_hotel_id bd,
                   booking_room_id = bc_room_id bd, check_in_date = bc_check_in_date bd,
                   check_out_date = bc_check_out_date bd, rooms_count = bc_rooms_count bd,
                   total_price = tot, status = PENDING,
                   special_requests = bc_special_requests bd, cancellation_reason = None,
                   booking_session_id = None\<rparr>
          in Inr (b, reserve_inventory (s\<lparr>bookings := (bookings s)(bid \<mapsto> b)\<rparr>) b))"
  using assms
  by (auto simp: init_booking_def request_ok_def Let_def split: option.splits sum.splits)

lemma init_booking_Inr_request_ok:
  "init_booking s fl today bid u bd = Inr (b, s') \<Longrightarrow> request_ok s today bd"
  by (auto simp: init_booking_def request_ok_def split: option.splits if_splits)

lemma ex_night_dates:
  "night_dates 10 12 = [10, 11]" "night_dates 10 13 = [10, 11, 12]"
  by (simp_all add: night_dates_def nights_def upto.simps)

lemma ex_request_ok: "request_ok (ex_db st ps) 10 (ex_request co rc) \<longleftrightarrow> 10 < co"
  by (simp add: request_ok_def ex_defs)


text \<open>
  Claim C2. For a request that passes the checks of its dates, hotel and room:
  when every night of \<open>[check_in, check_out)\<close> has a record with at least
  \<open>rooms_count\<close> rooms left, \<^verbatim>\<open>init_booking\<close> stores a booking in status
  \<^verbatim>\<open>PENDING\<close> and raises \<open>booked_count\<close> by \<open>rooms_count\<close> on every night of the
  range and on no other record; when some night has no record or too few rooms left, the
  call fails with \<open>NoInventory\<close> or \<open>InsufficientCapacity\<close> naming such a night (the
  first one in the range, with the rejection that night calls for), and a failed call
  writes nothing: neither a booking nor a count.
\<close>

theorem init_booking_all_or_nothing:
  assumes ok: "request_ok s today bd"
  shows
   "((\<forall>d \<in> set (night_dates (bc_check_in_date bd) (bc_check_out_date bd)).
        date_passes s (bc_room_id bd) (bc_rooms_count bd) d) \<longrightarrow>
       (\<exists>b s'. init_booking s fl today bid u bd = Inr (b, s')
          \<and> status b = PENDING
          \<and> booking_user_id b = user_id u
          \<and> booking_room_id b = bc_room_id bd
          \<and> check_in_date b = bc_check_in_date bd
          \<and> check_out_date b = bc_check_out_date bd
          \<and> rooms_count b = bc_rooms_count bd
          \<and> bookings s' = (bookings s)(bid \<mapsto> b)
          \<and> (\<forall>r d. inventories s' (r, d) =
                (if r = bc_room_id bd
                    \<and> d \<in> set (night_dates (bc_check_in_date bd) (bc_check_out_date bd))
                 then map_option
                        (\<lambda>i. i\<lparr>booked_count := booked_count i + bc_rooms_count bd\<rparr>)
                        (inventories s (r, d))
                 else inventories s (r, d)))))
    \<and> (\<forall>d \<in> set (night_dates (bc_check_in_date bd) (bc_check_out_date bd)).
          \<not> date_passes s (bc_room_id bd) (bc_rooms_count bd) d
          \<and> (\<forall>d' \<in> set (night_dates (bc_check_in_date bd) (bc_check_out_date bd)).
                d' < d \<longrightarrow> date_passes s (bc_room_id bd) (bc_rooms_count bd) d')
          \<longrightarrow> init_booking s fl today bid u bd = Inl (date_error s (bc_room_id bd) d))
    \<and> ((\<exists>d \<in> set (night_dates (bc_check_in_date bd) (bc_check_out_date bd)).
           \<not> date_passes s (bc_room_id bd) (bc_rooms_count bd) d) \<longrightarrow>
        (\<exists>d \<in> set (night_dates (bc_check_in_date bd) (bc_check_out_date bd)).
           \<not> date_passes s (bc_room_id bd) (bc_rooms_count bd) d
           \<and> init_booking s fl today bid u bd = Inl (date_error s (bc_room_id bd) d)))"
proof -
  let ?ds = "night_dates (bc_check_in_date bd) (bc_check_out_date bd)"
  let ?rid = "bc_room_id bd"
  let ?rc = "bc_rooms_count bd"
  note ib = init_booking_checked[OF ok, of fl bid u]
  have success: "\<exists>b s'. init_booking s fl today bid u bd = Inr (b, s')
          \<and> status b = PENDING
          \<and> booking_user_id b = user_id u
          \<and> booking_room_id b = ?rid
          \<and> check_in_date b = bc_check_in_date bd
          \<and> check_out_date b = bc_check_out_date bd
          \<and> rooms_count b = ?rc
          \<and> bookings s' = (bookings s)(bid \<mapsto> b)
          \<and> (\<forall>r d. inventories s' (r, d) =
                (if r = ?rid \<and> d \<in> set ?ds
                 then map_option (\<lambda>i. i\<lparr>booked_count := booked_count i + ?rc\<rparr>)
                        (inventories s (r, d))
                 else inventories s (r, d)))"
    if all: "\<forall>d \<in> set ?ds. date_passes s ?rid ?rc d"
  proof -
    from check_availability_Inr[OF all, of fl 0] obtain tot where
      ca: "check_availability s fl ?rid ?rc ?ds 0 = Inr tot" by blast
    define b where "b = \<lparr>booking_user_id = user_id u, booking_hotel_id = bc_hotel_id bd,
                   booking_room_id = bc_room_id bd, check_in_date = bc_check_in_date bd,
                   check_out_date = bc_check_out_date bd, rooms_count = bc_rooms_count bd,
                   total_price = tot, status = PENDING,
                   special_requests = bc_special_requests bd, cancellation_reason = None,
                   booking_session_id = None\<rparr>"
    define s' where "s' = reserve_inventory (s\<lparr>bookings := (bookings s)(bid \<mapsto> b)\<rparr>) b"
    have res: "init_booking s fl today bid u bd = Inr (b, s')"
      by (simp add: ib ca b_def s'_def Let_def)
    have "bookings s' = (bookings s)(bid \<mapsto> b)"
      by (simp add: s'_def reserve_inventory_fields)
    moreover have "\<forall>r d. inventories s' (r, d) =
                (if r = ?rid \<and> d \<in> set ?ds
                 then map_option (\<lambda>i. i\<lparr>booked_count := booked_count i + ?rc\<rparr>)
                        (inventories s (r, d))
                 else inventories s (r, d))"
      unfolding s'_def by (simp only: reserve_inventory_apply) (simp add: b_def)
    ultimately show ?thesis using res by (auto simp: b_def)
  qed
  have first: "init_booking s fl today bid u bd = Inl (date_error s ?rid d)"
    if d: "d \<in> set ?ds" and bad: "\<not> date_passes s ?rid ?rc d"
      and before: "\<forall>d' \<in> set ?ds. d' < d \<longrightarrow> date_passes s ?rid ?rc d'" for d
  proof -
    from night_dates_split[OF d] obtain pre post where
      sp: "?ds = pre @ d # post" and lt: "\<forall>x \<in> set pre. x < d" by blast
    have "\<forall>x \<in> set pre. date_passes s ?rid ?rc x"
    proof
      fix x assume x: "x \<in> set pre"
      then have "x \<in> set ?ds" by (simp add: sp)
      with before lt x show "date_passes s ?rid ?rc x" by blast
    qed
    from check_availability_Inl[OF this bad, of fl post 0]
    show ?thesis by (simp add: ib sp)
  qed
  have some: "\<exists>d \<in> set ?ds. \<not> date_passes s ?rid ?rc d
           \<and> init_booking s fl today bid u bd = Inl (date_error s ?rid d)"
    if ex: "\<exists>d \<in> set ?ds. \<not> date_passes s ?rid ?rc d"
  proof -
    from split_list_first_prop[OF ex] obtain pre d post where
      sp: "?ds = pre @ d # post" and bad: "\<not> date_passes s ?rid ?rc d"
      and pre: "\<forall>x \<in> set pre. \<not> \<not> date_passes s ?rid ?rc x" by blast
    from pre have "\<forall>x \<in> set pre. date_passes s ?rid ?rc x" by simp
    from check_availability_Inl[OF this bad, of fl post 0]
    have "init_booking s fl today bid u bd = Inl (date_error s ?rid d)"
      by (simp add: ib sp)
    moreover have "d \<in> set ?ds" by (simp add: sp)
    ultimately show ?thesis using bad by blast
  qed
  from success first some show ?thesis by blast
qed

text \<open>
  The theorem at three requests on room 1 from night 10: two rooms for two nights are
  booked, three rooms are refused for night 10, and three nights are refused for
  night 12, which has no record.
\<close>

theorem init_booking_all_or_nothing_witness:
  "request_ok (ex_db PENDING []) 10 (ex_request 12 2)
   \<and> (\<exists>b s'. init_booking (ex_db PENDING []) (\<lambda>n. n) 10 6 ex_user (ex_request 12 2) = Inr (b, s')
         \<and> status b = PENDING
         \<and> bookings s' 6 = Some b
         \<and> inventories s' (1, 10) = Some \<lparr>available_count = 5, booked_count = 5, price = 100\<rparr>
         \<and> inventories s' (1, 11) = Some \<lparr>available_count = 5, booked_count = 4, price = 120\<rparr>)
   \<and> init_booking (ex_db PENDING []) (\<lambda>n. n) 10 6 ex_user (ex_request 12 3)
       = Inl (InsufficientCapacity 10)
   \<and> init_booking (ex_db PENDING []) (\<lambda>n. n) 10 6 ex_user (ex_request 13 2)
       = Inl (NoInventory 12)"
proof -
  let ?s = "ex_db PENDING []"
  have ok: "request_ok ?s 10 (ex_request co rc)" if "10 < co" for co rc
    using that by (simp add: ex_request_ok)
  have dates: "bc_check_in_date (ex_request co rc) = 10" "bc_check_out_date (ex_request co rc) = co"
    "bc_room_id (ex_request co rc) = 1" "bc_rooms_count (ex_request co rc) = rc" for co rc
    by (simp_all add: ex_request_def)
  have p2: "date_passes ?s 1 2 10" "date_passes ?s 1 2 11" "\<not> date_passes ?s 1 2 12"
    and p3: "\<not> date_passes ?s 1 3 10"
    by (simp_all add: date_passes_def ex_db_def)
  have e: "date_error ?s 1 10 = InsufficientCapacity 10" "date_error ?s 1 12 = NoInventory 12"
    by (simp_all add: date_error_def ex_db_def)
  note t2 = init_booking_all_or_nothing[of ?s 10 "ex_request 12 2" "\<lambda>n. n" 6 ex_user, OF ok]
  note t3 = init_booking_all_or_nothing[of ?s 10 "ex_request 12 3" "\<lambda>n. n" 6 ex_user, OF ok]
  note t4 = init_booking_all_or_nothing[of ?s 10 "ex_request 13 2" "\<lambda>n. n" 6 ex_user, OF ok]
  from t2 p2 obtain b s' where
    r: "init_booking ?s (\<lambda>n. n) 10 6 ex_user (ex_request 12 2) = Inr (b, s')"
    and st: "status b = PENDING" and bk: "bookings s' = (bookings ?s)(6 \<mapsto> b)"
    and inv: "\<And>r d. inventories s' (r, d) =
                (if r = 1 \<and> d \<in> set [10, 11]
                 then map_option
                        (\<lambda>i. i\<lparr>booked_count := booked_count i + bc_rooms_count (ex_request 12 2)\<rparr>)
                        (inventories ?s (r, d))
                 else inventories ?s (r, d))"
    by (auto simp: dates ex_night_dates)
  have A: "\<exists>b s'. init_booking ?s (\<lambda>n. n) 10 6 ex_user (ex_request 12 2) = Inr (b, s')
         \<and> status b = PENDING
         \<and> bookings s' 6 = Some b
         \<and> inventories s' (1, 10) = Some \<lparr>available_count = 5, booked_count = 5, price = 100\<rparr>
         \<and> inventories s' (1, 11) = Some \<lparr>available_count = 5, booked_count = 4, price = 120\<rparr>"
    using r st bk inv[of 1 10] inv[of 1 11] by (simp add: ex_db_def dates)
  from t3 p3 have B: "init_booking ?s (\<lambda>n. n) 10 6 ex_user (ex_request 12 3)
       = Inl (InsufficientCapacity 10)"
    by (simp add: dates ex_night_dates e)
  from t4 p2 have C: "init_booking ?s (\<lambda>n. n) 10 6 ex_user (ex_request 13 2)
       = Inl (NoInventory 12)"
    by (simp add: dates ex_night_dates e)
  from ok[of 12 2] A B C show ?thesis by simp
qed
section \<open>Payment webhook\<close>




lemma process_webhook_none:
  "filter (\<lambda>p. payment_session_id p = Some (wh_payment_session_id wh)) (payments s) = [] \<Longrightarrow>
   process_webhook s t wh = Inl SessionNotFound"
  by (simp add: process_webhook_def)

lemma process_webhook_processed:
  "filter (\<lambda>p. payment_session_id p = Some (wh_payment_session_id wh)) (payments s) = [p] \<Longrightarrow>
   pay_status p \<noteq> PAY_PENDING \<Longrightarrow>
   process_webhook s t wh = Inl AlreadyProcessed"
  by (simp add: process_webhook_def)







section \<open>Payment initiation\<close>

lemma initiate_payment_not_pending:
  "bookings s bid = Some b \<Longrightarrow> booking_user_id b = user_id u \<Longrightarrow> status b \<noteq> PENDING \<Longrightarrow>
   initiate_payment s utcnow db_now hex pid bid u m = Inl PayInvalidState"
  by (simp add: initiate_payment_def create_payment_def)



lemma initiate_payment_create:
  assumes "bookings s bid = Some b" "booking_user_id b = user_id u" "status b = PENDING"
    and "filter (\<lambda>p. pay_booking_id p = bid) (payments s) = []"
  shows "initiate_payment s utcnow db_now hex pid bid u m =
     Inr (\<lparr>resp_payment_session_id = Some (''pay_session_'' @ take 16 hex),
           resp_payment_url = payment_gateway_url @ ''/'' @ ''pay_session_'' @ take 16 hex,
           resp_amount = total_price b, resp_currency = ''USD'',
           resp_expires_at = utcnow + 30 * 60\<rparr>,
          s\<lparr>payments := payments s @
               [\<lparr>pay_id = pid, pay_booking_id = bid, amount = total_price b,
                 currency = ''USD'', pay_status = PAY_PENDING, payment_method = Some m,
                 transaction_id = None,
                 payment_session_id = Some (''pay_session_'' @ take 16 hex),
                 paid_at = None, pay_created_at = db_now\<rparr>],
            bookings := (bookings s)
               (bid \<mapsto> b\<lparr>booking_session_id := Some (''pay_session_'' @ take 16 hex)\<rparr>)\<rparr>)"
proof -
  from assms(4) have "\<not> list_ex (\<lambda>p. pay_booking_id p = bid) (payments s)"
    by (simp add: list_ex_iff filter_empty_conv)
  with assms show ?thesis
    by (simp add: initiate_payment_def create_payment_def Let_def)
qed






section \<open>The price of a stay\<close>

lemma check_availability_total:
  "check_availability s fl rid rc ds acc = Inr t \<Longrightarrow>
   t = foldl (\<lambda>acc d. acc + price (the (inventories s (rid, d))) * fl rc) acc ds"
  using check_availability_Inr[OF check_availability_passes, of s fl rid rc ds acc t fl acc]
  by simp

lemma init_booking_total_price:
  assumes "init_booking s fl today bid u bd = Inr (b, s1)"
  shows "total_price b = snapshot_total s fl (bc_room_id bd) (bc_rooms_count bd)
                           (night_dates (bc_check_in_date bd) (bc_check_out_date bd))"
    and "bookings s1 bid = Some b"
proof -
  from assms have ok: "request_ok s today bd" by (rule init_booking_Inr_request_ok)
  from assms obtain tot where
    ca: "check_availability s fl (bc_room_id bd) (bc_rooms_count bd)
           (night_dates (bc_check_in_date bd) (bc_check_out_date bd)) 0 = Inr tot"
    and b: "total_price b = tot"
    and s1: "bookings s1 bid = Some b"
    by (auto simp: init_booking_checked[OF ok] Let_def reserve_inventory_fields split: sum.splits)
  from check_availability_total[OF ca] b
  show "total_price b = snapshot_total s fl (bc_room_id bd) (bc_rooms_count bd)
                           (night_dates (bc_check_in_date bd) (bc_check_out_date bd))"
    by (simp add: snapshot_total_def)
  from s1 show "bookings s1 bid = Some b" .
qed

lemma initiate_payment_amount:
  assumes "bookings s bid = Some b"
    and "initiate_payment s utcnow db_now hex pid bid u m = Inr (resp, s')"
    and "payments s' \<noteq> payments s"
  shows "\<exists>pm. payments s' = payments s @ [pm] \<and> pay_booking_id pm = bid
           \<and> amount pm = total_price b \<and> resp_amount resp = total_price b"
  using assms
  by (auto simp: initiate_payment_def create_payment_def Let_def split: if_splits sum.splits option.splits)

lemma update_inventory_bookings:
  "update_inventory s rid d adm upd = Inr (i, s') \<Longrightarrow> bookings s' = bookings s"
  by (auto simp: update_inventory_def Let_def split: sum.splits option.splits)

lemma bulk_update_inventory_bookings:
  "bulk_update_inventory s rid adm bulk = Inr (il, s') \<Longrightarrow> bookings s' = bookings s"
  by (auto simp: bulk_update_inventory_def Let_def split: sum.splits if_splits prod.splits)


text \<open>
  Claim C7. The booking a successful \<^verbatim>\<open>init_booking\<close> stores carries as
  \<open>total_price\<close> the sum, over the nights of \<open>[check_in, check_out)\<close> in order, of the
  night's price times \<open>rooms_count\<close>, read from the inventory table of the moment of the
  call. The payment \<^verbatim>\<open>initiate_payment\<close> creates for a booking has the
  \<open>total_price\<close> stored in the booking as its amount, whatever the inventory table holds
  by then; the administrative edits of the inventory do not touch the bookings.
\<close>

theorem total_price_snapshot:
  "(init_booking s fl today bid u bd = Inr (b, sa) \<longrightarrow>
       total_price b = snapshot_total s fl (bc_room_id bd) (bc_rooms_count bd)
                         (night_dates (bc_check_in_date bd) (bc_check_out_date bd))
       \<and> bookings sa bid = Some b)
   \<and> (bookings sb bid = Some bb
        \<and> initiate_payment sb utcnow db_now hex pid bid ub m = Inr (resp, sc)
        \<and> payments sc \<noteq> payments sb \<longrightarrow>
       (\<exists>pm. payments sc = payments sb @ [pm] \<and> pay_booking_id pm = bid
           \<and> amount pm = total_price bb \<and> resp_amount resp = total_price bb))
   \<and> (update_inventory sd rid d adm upd = Inr (i, se) \<longrightarrow> bookings se = bookings sd)
   \<and> (bulk_update_inventory sd rid adm bulk = Inr (il, sf) \<longrightarrow> bookings sf = bookings sd)"
  using init_booking_total_price[of s fl today bid u bd b sa]
    initiate_payment_amount[of sb bid bb utcnow db_now hex pid ub m resp sc]
    update_inventory_bookings[of sd rid d adm upd i se]
    bulk_update_inventory_bookings[of sd rid adm bulk il sf]
  by blast

text \<open>
  The theorem on one run: two rooms booked for nights 10 and 11 at 100 and 120, the price
  of night 10 then edited to 999, and the payment initiated afterwards for 440.
\<close>

theorem total_price_snapshot_witness:
  "\<exists>b s1 i s2 resp s3.
      init_booking (ex_db PENDING []) (\<lambda>n. n) 10 6 ex_user (ex_request 12 2) = Inr (b, s1)
    \<and> total_price b = 2 * 100 + 2 * 120
    \<and> update_inventory s1 1 10 ex_owner \<lparr>iu_available_count = Unset, iu_price = Value 999\<rparr>
        = Inr (i, s2)
    \<and> price i = 999
    \<and> initiate_payment s2 2000 1000 ex_hex 1 6 ex_user UPI = Inr (resp, s3)
    \<and> resp_amount resp = 440
    \<and> map amount (payments s3) = [440]"
proof -
  let ?s0 = "ex_db PENDING []"
  let ?b = "ex_booking PENDING"
  let ?s1 = "reserve_inventory (?s0\<lparr>bookings := (bookings ?s0)(6 \<mapsto> ?b)\<rparr>) ?b"
  let ?upd = "\<lparr>iu_available_count = Unset, iu_price = Value (999::int)\<rparr>"
  let ?i = "\<lparr>available_count = 5, booked_count = 5, price = (999::int)\<rparr>"
  let ?s2 = "?s1\<lparr>inventories := (inventories ?s1)((1, 10) \<mapsto> ?i)\<rparr>"
  have r1: "init_booking ?s0 (\<lambda>n. n) 10 6 ex_user (ex_request 12 2) = Inr (?b, ?s1)"
    by (simp add: init_booking_def ex_defs ex_night_dates Let_def)
  have i10: "inventories ?s1 (1, 10) = Some \<lparr>available_count = 5, booked_count = 5, price = 100\<rparr>"
    by (simp add: reserve_inventory_apply) (simp add: ex_defs ex_night_dates)
  have v: "verify_room_access ?s1 1 ex_owner
             = Inr \<lparr>room_hotel_id = 1, base_price = 100, total_count = 5\<rparr>"
    by (simp add: verify_room_access_def reserve_inventory_fields ex_defs)
  have r2: "update_inventory ?s1 1 10 ex_owner ?upd = Inr (?i, ?s2)"
    by (simp add: update_inventory_def v i10 set_field_def Let_def)
  have bk2: "bookings ?s2 6 = Some ?b"
    by (simp add: reserve_inventory_fields)
  have own: "booking_user_id ?b = user_id ex_user" "status ?b = PENDING"
    by (simp_all add: ex_defs)
  have pay2: "payments ?s2 = []"
    by (simp add: reserve_inventory_fields ex_db_def)
  then have "filter (\<lambda>p. pay_booking_id p = 6) (payments ?s2) = []"
    by simp
  from initiate_payment_create[OF bk2 own this, of 2000 1000 ex_hex 1 UPI]
  have "\<exists>resp s3. initiate_payment ?s2 2000 1000 ex_hex 1 6 ex_user UPI = Inr (resp, s3)
          \<and> payments s3 \<noteq> payments ?s2"
    by simp
  then obtain resp s3 where
    r3: "initiate_payment ?s2 2000 1000 ex_hex 1 6 ex_user UPI = Inr (resp, s3)"
    and ne: "payments s3 \<noteq> payments ?s2" by blast
  note T = total_price_snapshot[of ?s0 "\<lambda>n. n" 10 6 ex_user "ex_request 12 2" ?b ?s1
      ?s2 ?b 2000 1000 ex_hex 1 ex_user UPI resp s3 ?s1 1 10 ex_owner ?upd ?i ?s2]
  from T[THEN conjunct1, rule_format, OF r1]
  have tp: "total_price ?b = snapshot_total ?s0 (\<lambda>n. n) 1 2 [10, 11]"
    by (simp add: ex_request_def ex_night_dates)
  from T[THEN conjunct2, THEN conjunct1, rule_format, OF conjI[OF bk2 conjI[OF r3 ne]]]
  have pm: "\<exists>pm. payments s3 = payments ?s2 @ [pm] \<and> amount pm = total_price ?b
               \<and> resp_amount resp = total_price ?b"
    by blast
  have "snapshot_total ?s0 (\<lambda>n. n) 1 2 [10, 11] = 2 * 100 + 2 * 120"
    by (simp add: snapshot_total_def ex_db_def)
  with tp have t: "total_price ?b = 2 * 100 + 2 * 120" by simp
  from pay2 pm t have "resp_amount resp = 440" "map amount (payments s3) = [440]" by auto
  with r1 r2 r3 t show ?thesis by (intro exI[of _ ?b] exI[of _ ?s1] exI[of _ ?i] exI[of _ ?s2]
      exI[of _ resp] exI[of _ s3]) simp
qed
section \<open>The ledger invariant\<close>





















section \<open>Guests\<close>

lemma length_filter_eq_iff: "length (filter P xs) = length xs \<longleftrightarrow> (\<forall>x \<in> set xs. P x)"
proof (induction xs)
  case Nil
  then show ?case by simp
next
  case (Cons a xs)
  show ?case
  proof (cases "P a")
    case True
    with Cons show ?thesis by simp
  next
    case False
    have "length (filter P xs) < Suc (length xs)"
      using length_filter_le[of P xs] by (simp add: le_imp_less_Suc)
    with False show ?thesis by auto
  qed
qed

lemma select_guests_length:
  "length (select_guests s gids (user_id u)) = length gids \<longleftrightarrow>
     distinct gids \<and> (\<forall>g \<in> set gids. guest_of_user s u g)"
proof -
  let ?P = "\<lambda>g. case guests s g of None \<Rightarrow> False | Some guest \<Rightarrow> guest_user_id guest = user_id u"
  have le1: "length (filter ?P (remdups gids)) \<le> length (remdups gids)" by simp
  have le2: "length (remdups gids) \<le> length gids" by (rule length_remdups_leq)
  have "length (filter ?P (remdups gids)) = length gids \<longleftrightarrow>
          length (filter ?P (remdups gids)) = length (remdups gids)
          \<and> length (remdups gids) = length gids"
    using le1 le2 by linarith
  also have "\<dots> \<longleftrightarrow> (\<forall>g \<in> set gids. ?P g) \<and> distinct gids"
    by (simp add: length_filter_eq_iff length_remdups_eq remdups_id_iff_distinct)
  finally show ?thesis
    by (auto simp: select_guests_def guest_of_user_def)
qed

lemma select_guests_all:
  "distinct gids \<Longrightarrow> \<forall>g \<in> set gids. guest_of_user s u g \<Longrightarrow>
   select_guests s gids (user_id u) = gids"
  by (simp add: select_guests_def guest_of_user_def distinct_remdups_id)


text \<open>
  Claim C10, as the code has it. For a booking the caller may access,
  \<^verbatim>\<open>add_guests_to_booking\<close> fails with \<open>GuestsInvalidState\<close> when the status is
  neither \<^verbatim>\<open>PENDING\<close> nor \<^verbatim>\<open>CONFIRMED\<close>; otherwise it fails with
  \<open>GuestsNotFound\<close>, attaching nothing, when some referenced guest is not a guest of the
  caller or when the list of references names a guest twice; and otherwise it adds the
  referenced guests to the set of guests of the booking, where a guest attached already
  stays attached once.
\<close>

theorem add_guests_cases:
  assumes gb: "get_booking_by_id s bid u = Inr b"
  shows
   "(status b \<notin> {PENDING, CONFIRMED} \<longrightarrow>
       add_guests_to_booking s bid u gids = Inl GuestsInvalidState)
    \<and> (status b \<in> {PENDING, CONFIRMED} \<longrightarrow>
         ((\<exists>g \<in> set gids. \<not> guest_of_user s u g) \<or> \<not> distinct gids \<longrightarrow>
            add_guests_to_booking s bid u gids = Inl GuestsNotFound)
       \<and> ((\<forall>g \<in> set gids. guest_of_user s u g) \<and> distinct gids \<longrightarrow>
            add_guests_to_booking s bid u gids =
              Inr (b, s\<lparr>booking_guests := booking_guests s \<union> (\<lambda>g. (bid, g)) ` set gids\<rparr>)))"
proof (intro conjI impI)
  assume "status b \<notin> {PENDING, CONFIRMED}"
  with gb show "add_guests_to_booking s bid u gids = Inl GuestsInvalidState"
    by (simp add: add_guests_to_booking_def)
next
  assume st: "status b \<in> {PENDING, CONFIRMED}"
    and "(\<exists>g \<in> set gids. \<not> guest_of_user s u g) \<or> \<not> distinct gids"
  then have "length (select_guests s gids (user_id u)) \<noteq> length gids"
    by (auto simp: select_guests_length)
  with gb st show "add_guests_to_booking s bid u gids = Inl GuestsNotFound"
    by (simp add: add_guests_to_booking_def Let_def)
next
  assume st: "status b \<in> {PENDING, CONFIRMED}"
    and "(\<forall>g \<in> set gids. guest_of_user s u g) \<and> distinct gids"
  then have "select_guests s gids (user_id u) = gids"
    by (simp add: select_guests_all)
  with gb st show "add_guests_to_booking s bid u gids =
              Inr (b, s\<lparr>booking_guests := booking_guests s \<union> (\<lambda>g. (bid, g)) ` set gids\<rparr>)"
    by (simp add: add_guests_to_booking_def Let_def)
qed


text \<open>
  The theorem at booking 5 and guests 7 (of the caller) and 8 (of another user):
  refused on a cancelled booking, refused for guest 8, guest 7 attached, and guest 7
  attached again with no change.
\<close>

theorem add_guests_cases_witness:
  "get_booking_by_id (ex_db PENDING []) 5 ex_user = Inr (ex_booking PENDING)
   \<and> add_guests_to_booking (ex_db CANCELLED []) 5 ex_user [7] = Inl GuestsInvalidState
   \<and> add_guests_to_booking (ex_db PENDING []) 5 ex_user [7, 8] = Inl GuestsNotFound
   \<and> add_guests_to_booking (ex_db PENDING []) 5 ex_user [7]
       = Inr (ex_booking PENDING, (ex_db PENDING [])\<lparr>booking_guests := {(5, 7)}\<rparr>)
   \<and> add_guests_to_booking ((ex_db CONFIRMED [])\<lparr>booking_guests := {(5, 7)}\<rparr>) 5 ex_user [7]
       = Inr (ex_booking CONFIRMED, (ex_db CONFIRMED [])\<lparr>booking_guests := {(5, 7)}\<rparr>)"
proof -
  have g: "guest_of_user (ex_db st ps) ex_user 7" "\<not> guest_of_user (ex_db st ps) ex_user 8"
    "guest_of_user ((ex_db st ps)\<lparr>booking_guests := X\<rparr>) ex_user 7" for st ps X
    by (simp_all add: guest_of_user_def ex_defs)
  have gb': "get_booking_by_id ((ex_db st ps)\<lparr>booking_guests := X\<rparr>) 5 ex_user = Inr (ex_booking st)"
    for st ps X
    by (simp add: get_booking_by_id_def ex_defs)
  have st: "status (ex_booking x) = x" for x by (simp add: ex_booking_def)
  from add_guests_cases[OF ex_get_booking[of CANCELLED "[]"], of "[7]"]
  have A: "add_guests_to_booking (ex_db CANCELLED []) 5 ex_user [7] = Inl GuestsInvalidState"
    by (simp add: st)
  from add_guests_cases[OF ex_get_booking[of PENDING "[]"], of "[7, 8]"]
  have B: "add_guests_to_booking (ex_db PENDING []) 5 ex_user [7, 8] = Inl GuestsNotFound"
    by (simp add: st g)
  from add_guests_cases[OF ex_get_booking[of PENDING "[]"], of "[7]"]
  have C: "add_guests_to_booking (ex_db PENDING []) 5 ex_user [7]
       = Inr (ex_booking PENDING, (ex_db PENDING [])\<lparr>booking_guests := {(5, 7)}\<rparr>)"
    by (simp add: st g) (simp add: ex_db_def)
  from add_guests_cases[OF gb'[where st = CONFIRMED and ps = "[]" and X = "{(5, 7)}"], of "[7]"]
  have D: "add_guests_to_booking ((ex_db CONFIRMED [])\<lparr>booking_guests := {(5, 7)}\<rparr>) 5 ex_user [7]
       = Inr (ex_booking CONFIRMED, (ex_db CONFIRMED [])\<lparr>booking_guests := {(5, 7)}\<rparr>)"
    by (simp add: st g)
  from ex_get_booking[of PENDING "[]"] A B C D show ?thesis by blast
qed


text \<open>
  Claim C10 as stated fails: guest 7 belongs to the caller and booking 5 is
  \<^verbatim>\<open>PENDING\<close>, yet the request that names guest 7 twice is refused with
  \<open>GuestsNotFound\<close>.
\<close>

theorem add_guests_repeated_counterexample:
  "guest_of_user (ex_db PENDING []) ex_user 7
   \<and> status (ex_booking PENDING) = PENDING
   \<and> get_booking_by_id (ex_db PENDING []) 5 ex_user = Inr (ex_booking PENDING)
   \<and> add_guests_to_booking (ex_db PENDING []) 5 ex_user [7, 7] = Inl GuestsNotFound"
  by (simp add: add_guests_to_booking_def get_booking_by_id_def select_guests_def
        guest_of_user_def ex_defs Let_def)
section \<open>Bookings in a terminal status\<close>

lemma get_booking_by_id_Some:
  "bookings s bid = Some b \<Longrightarrow>
   get_booking_by_id s bid u = Inr b
   \<or> get_booking_by_id s bid u = Inl (HTTPException 403 (Msg ''Not authorized to access this booking''))"
  by (simp add: get_booking_by_id_def)

lemma initiate_payment_terminal:
  "bookings s bid = Some b \<Longrightarrow> status b \<noteq> PENDING \<Longrightarrow>
   \<exists>e. initiate_payment s utcnow db_now hex pid bid u m = Inl e"
  by (simp add: initiate_payment_def create_payment_def)


text \<open>
  Claim C9, as the code has it. For a stored booking whose status is \<^verbatim>\<open>CANCELLED\<close>,
  \<^verbatim>\<open>CHECKED_OUT\<close> or \<^verbatim>\<open>EXPIRED\<close>: \<^verbatim>\<open>add_guests_to_booking\<close> and
  \<^verbatim>\<open>initiate_payment\<close> fail (with the state rejection when the caller is entitled to the
  booking), so they write nothing; \<^verbatim>\<open>cancel_booking\<close> fails in the same way for
  \<^verbatim>\<open>CANCELLED\<close> and \<^verbatim>\<open>CHECKED_OUT\<close>, whereas it cancels an \<^verbatim>\<open>EXPIRED\<close> booking,
  which becomes \<^verbatim>\<open>CANCELLED\<close> with the given reason; and \<^verbatim>\<open>process_webhook\<close> fails,
  writing nothing, when the session has no payment or a payment that is no longer
  \<^verbatim>\<open>PENDING\<close>.
\<close>

theorem terminal_booking_operations:
  assumes bk: "bookings s bid = Some b"
    and tm: "status b \<in> {CANCELLED, CHECKED_OUT, EXPIRED}"
  shows
   "(\<exists>e. add_guests_to_booking s bid u gids = Inl e)
    \<and> (get_booking_by_id s bid u = Inr b \<longrightarrow>
         add_guests_to_booking s bid u gids = Inl GuestsInvalidState)
    \<and> (\<exists>e. initiate_payment s utcnow db_now hex pid bid u m = Inl e)
    \<and> (booking_user_id b = user_id u \<longrightarrow>
         initiate_payment s utcnow db_now hex pid bid u m = Inl PayInvalidState)
    \<and> (status b \<noteq> EXPIRED \<longrightarrow> (\<exists>e. cancel_booking s bid u reason = Inl e))
    \<and> (status b \<noteq> EXPIRED \<and> get_booking_by_id s bid u = Inr b \<longrightarrow>
         cancel_booking s bid u reason = Inl CancelInvalidState)
    \<and> (status b = EXPIRED \<and> get_booking_by_id s bid u = Inr b \<longrightarrow>
         (\<exists>s'. cancel_booking s bid u reason
                 = Inr (b\<lparr>status := CANCELLED, cancellation_reason := reason\<rparr>, s')
               \<and> bookings s' bid = Some (b\<lparr>status := CANCELLED, cancellation_reason := reason\<rparr>)))
    \<and> (\<forall>p. filter (\<lambda>q. payment_session_id q = Some (wh_payment_session_id wh)) (payments s) = [p]
            \<and> pay_status p \<noteq> PAY_PENDING
          \<longrightarrow> process_webhook s t wh = Inl AlreadyProcessed)
    \<and> (filter (\<lambda>q. payment_session_id q = Some (wh_payment_session_id wh)) (payments s) = []
          \<longrightarrow> process_webhook s t wh = Inl SessionNotFound)"
proof -
  from tm have np: "status b \<noteq> PENDING" and ng: "status b \<notin> {PENDING, CONFIRMED}" by auto
  have g1: "add_guests_to_booking s bid u gids = Inl GuestsInvalidState"
    if "get_booking_by_id s bid u = Inr b"
    using that ng by (simp add: add_guests_to_booking_def)
  have g0: "\<exists>e. add_guests_to_booking s bid u gids = Inl e"
    using get_booking_by_id_Some[OF bk, of u] g1
    by (auto simp: add_guests_to_booking_def)
  have p0: "\<exists>e. initiate_payment s utcnow db_now hex pid bid u m = Inl e"
    using bk np by (rule initiate_payment_terminal)
  have p1: "initiate_payment s utcnow db_now hex pid bid u m = Inl PayInvalidState"
    if "booking_user_id b = user_id u"
    using bk that np by (rule initiate_payment_not_pending)
  have c1: "cancel_booking s bid u reason = Inl CancelInvalidState"
    if "status b \<noteq> EXPIRED" "get_booking_by_id s bid u = Inr b"
    using that tm by (auto intro: cancel_booking_Inl)
  have c0: "\<exists>e. cancel_booking s bid u reason = Inl e" if "status b \<noteq> EXPIRED"
    using get_booking_by_id_Some[OF bk, of u] c1[OF that]
    by (auto simp: cancel_booking_def)
  have c2: "\<exists>s'. cancel_booking s bid u reason
                 = Inr (b\<lparr>status := CANCELLED, cancellation_reason := reason\<rparr>, s')
               \<and> bookings s' bid = Some (b\<lparr>status := CANCELLED, cancellation_reason := reason\<rparr>)"
    if e: "status b = EXPIRED" and gb: "get_booking_by_id s bid u = Inr b"
  proof -
    from e have "status b \<notin> {CANCELLED, CHECKED_OUT}" by simp
    from cancel_booking_Inr[OF gb this, of reason] show ?thesis by simp
  qed
  have w1: "process_webhook s t wh = Inl AlreadyProcessed"
    if "filter (\<lambda>q. payment_session_id q = Some (wh_payment_session_id wh)) (payments s) = [p]
            \<and> pay_status p \<noteq> PAY_PENDING" for p
    using that by (simp add: process_webhook_processed)
  have w0: "process_webhook s t wh = Inl SessionNotFound"
    if "filter (\<lambda>q. payment_session_id q = Some (wh_payment_session_id wh)) (payments s) = []"
    using that by (rule process_webhook_none)
  from g0 g1 p0 p1 c0 c1 c2 w1 w0 show ?thesis by blast
qed


text \<open>
  The theorem at booking 5, cancelled with a refunded payment: every operation is
  refused. When booking 5 is expired, the cancellation goes through.
\<close>

theorem terminal_booking_operations_witness:
  "bookings (ex_db CANCELLED [ex_payment PAY_REFUNDED]) 5 = Some (ex_booking CANCELLED)
   \<and> status (ex_booking CANCELLED) = CANCELLED
   \<and> add_guests_to_booking (ex_db CANCELLED [ex_payment PAY_REFUNDED]) 5 ex_user [7]
       = Inl GuestsInvalidState
   \<and> initiate_payment (ex_db CANCELLED [ex_payment PAY_REFUNDED]) 2000 1000 ex_hex 2 5 ex_user UPI
       = Inl PayInvalidState
   \<and> cancel_booking (ex_db CANCELLED [ex_payment PAY_REFUNDED]) 5 ex_user None
       = Inl CancelInvalidState
   \<and> process_webhook (ex_db CANCELLED [ex_payment PAY_REFUNDED]) 2000 (ex_webhook ''success'')
       = Inl AlreadyProcessed
   \<and> (\<exists>s'. cancel_booking (ex_db EXPIRED [ex_payment PAY_FAILED]) 5 ex_user (Some ''late'')
              = Inr ((ex_booking CANCELLED)\<lparr>cancellation_reason := Some ''late''\<rparr>, s'))"
proof -
  let ?s = "ex_db CANCELLED [ex_payment PAY_REFUNDED]"
  let ?t = "ex_db EXPIRED [ex_payment PAY_FAILED]"
  have bk: "bookings (ex_db st ps) 5 = Some (ex_booking st)" for st ps
    by (simp add: ex_defs)
  have st: "status (ex_booking x) = x" for x by (simp add: ex_booking_def)
  have own: "booking_user_id (ex_booking x) = user_id ex_user" for x by (simp add: ex_defs)
  have sel: "filter (\<lambda>q. payment_session_id q = Some (wh_payment_session_id (ex_webhook x)))
               (payments (ex_db y [ex_payment z])) = [ex_payment z]" for x y z
    by (simp add: ex_defs)
  have ps: "pay_status (ex_payment z) = z" for z by (simp add: ex_payment_def)
  have tc: "status (ex_booking CANCELLED) \<in> {CANCELLED, CHECKED_OUT, EXPIRED}"
    and te: "status (ex_booking EXPIRED) \<in> {CANCELLED, CHECKED_OUT, EXPIRED}"
    by (simp_all add: st)
  note T = terminal_booking_operations[OF bk tc, of "[ex_payment PAY_REFUNDED]" ex_user "[7]"
      2000 1000 ex_hex 2 UPI None "ex_webhook ''success''" 2000]
  note E = terminal_booking_operations[OF bk te, of "[ex_payment PAY_FAILED]" ex_user "[7]"
      2000 1000 ex_hex 2 UPI "Some ''late''" "ex_webhook ''success''" 2000]
  from T have A: "add_guests_to_booking ?s 5 ex_user [7] = Inl GuestsInvalidState"
    by (simp add: ex_get_booking)
  from T have B: "initiate_payment ?s 2000 1000 ex_hex 2 5 ex_user UPI = Inl PayInvalidState"
    by (simp add: own)
  from T have C: "cancel_booking ?s 5 ex_user None = Inl CancelInvalidState"
    by (simp add: ex_get_booking st)
  from T have D: "process_webhook ?s 2000 (ex_webhook ''success'') = Inl AlreadyProcessed"
    by (simp add: sel ps)
  from E have F: "\<exists>s'. cancel_booking ?t 5 ex_user (Some ''late'')
              = Inr ((ex_booking CANCELLED)\<lparr>cancellation_reason := Some ''late''\<rparr>, s')"
    by (simp add: ex_get_booking st) (auto simp: ex_booking_def)
  from bk[of CANCELLED "[ex_payment PAY_REFUNDED]"] st[of CANCELLED] A B C D F
  show ?thesis by blast
qed


text \<open>
  Claim C9 as stated fails twice over: the expired booking 5 is moved to
  \<^verbatim>\<open>CANCELLED\<close> by \<^verbatim>\<open>cancel_booking\<close>, and the cancelled booking 5 whose payment is
  still \<^verbatim>\<open>PENDING\<close> is moved to \<^verbatim>\<open>CONFIRMED\<close> by a webhook delivery with outcome
  \<^verbatim>\<open>success\<close>.
\<close>

theorem terminal_booking_changed_counterexample:
  "status (ex_booking EXPIRED) = EXPIRED
   \<and> bookings (ex_db EXPIRED [ex_payment PAY_FAILED]) 5 = Some (ex_booking EXPIRED)
   \<and> map_sum id (status \<circ> fst)
       (cancel_booking (ex_db EXPIRED [ex_payment PAY_FAILED]) 5 ex_user None) = Inr CANCELLED
   \<and> status (ex_booking CANCELLED) = CANCELLED
   \<and> bookings (ex_db CANCELLED [ex_payment PAY_PENDING]) 5 = Some (ex_booking CANCELLED)
   \<and> map_sum id (\<lambda>r. map_option status (bookings (snd r) 5))
       (process_webhook (ex_db CANCELLED [ex_payment PAY_PENDING]) 2000 (ex_webhook ''success''))
     = Inr (Some CONFIRMED)"
  by (simp add: cancel_booking_def get_booking_by_id_def booking_payment_def
        process_webhook_def transaction_id_taken_def ex_defs Let_def)

end
